theory Spec2Isabelle
  imports Complex_Main
begin

section \<open>JavaScript values used by the route handlers\<close>

text \<open>
  The handlers compute with JavaScript numbers: \<^verbatim>\<open>+page\<close>, \<^verbatim>\<open>Number(req.params.id)\<close>,
  \<^verbatim>\<open>Math.max\<close>, \<^verbatim>\<open>Math.ceil\<close>, subtraction, multiplication and division.  A number is
  \<open>NaN\<close>, one of the two infinities, or a finite double, kept as the rational it denotes.
  Reading a string and every arithmetic operation round the exact result to the nearest
  double, ties to the even significand, and give an infinity when the result is too large
  (\<open>toDouble\<close>).  The sign of zero is not represented.
\<close>

datatype jsnum = NaN | NegInf | Fin rat | PosInf

definition isFinite :: "jsnum \<Rightarrow> bool" where
  \<comment> \<open>\<^verbatim>\<open>Number.isFinite\<close>\<close>
  "isFinite x = (case x of Fin _ \<Rightarrow> True | _ \<Rightarrow> False)"

definition isInteger :: "jsnum \<Rightarrow> bool" where
  \<comment> \<open>\<^verbatim>\<open>Number.isInteger\<close>\<close>
  "isInteger x = (case x of Fin q \<Rightarrow> of_int \<lfloor>q\<rfloor> = q | _ \<Rightarrow> False)"

fun js_le :: "jsnum \<Rightarrow> jsnum \<Rightarrow> bool" where
  \<comment> \<open>\<^verbatim>\<open>a <= b\<close>: false as soon as one side is \<open>NaN\<close>\<close>
  "js_le NaN _ = False"
| "js_le _ NaN = False"
| "js_le NegInf _ = True"
| "js_le _ PosInf = True"
| "js_le (Fin a) (Fin b) = (a \<le> b)"
| "js_le (Fin _) NegInf = False"
| "js_le PosInf _ = False"

fun Math_max :: "jsnum \<Rightarrow> jsnum \<Rightarrow> jsnum" where
  \<comment> \<open>\<^verbatim>\<open>Math.max(a, b)\<close>: \<open>NaN\<close> as soon as one argument is \<open>NaN\<close>\<close>
  "Math_max NaN _ = NaN"
| "Math_max _ NaN = NaN"
| "Math_max a b = (if js_le a b then b else a)"

subsection \<open>Rounding to a double\<close>

function bitLength :: "int \<Rightarrow> int" where
  \<comment> \<open>the number of binary digits of a positive integer\<close>
  "bitLength n = (if n \<le> 0 then 0 else 1 + bitLength (n div 2))"
  by pat_completeness auto
termination
  by (relation "measure nat") auto

declare bitLength.simps [simp del]

definition pow2 :: "int \<Rightarrow> rat" where
  "pow2 e = (if 0 \<le> e then 2 ^ nat e else 1 / 2 ^ nat (- e))"

definition floorLog2 :: "rat \<Rightarrow> int" where
  \<comment> \<open>for \<open>0 < q\<close>, the \<open>e\<close> with \<open>2^e \<le> q < 2^(e + 1)\<close>\<close>
  "floorLog2 q =
     (let (a, b) = quotient_of q; e = bitLength a - bitLength b
      in if pow2 e \<le> q then e else e - 1)"

definition roundHalfEven :: "rat \<Rightarrow> int" where
  "roundHalfEven x =
     (let m = \<lfloor>x\<rfloor>; f = x - of_int m
      in if 1 / 2 < f \<or> (f = 1 / 2 \<and> odd m) then m + 1 else m)"

definition toDouble :: "rat \<Rightarrow> jsnum" where
  \<comment> \<open>the double nearest to a rational, ties to the even significand: a significand \<open>m\<close> of
      53 binary digits at most, exponents from -1022 to 1023, and an infinity as soon as
      \<open>m * 2^(e - 52)\<close> reaches \<open>2^1024\<close>\<close>
  "toDouble q =
     (if q = 0 then Fin 0
      else
        let a = \<bar>q\<bar>;
            e = max (floorLog2 a) (- 1022);
            u = pow2 (e - 52);
            m = roundHalfEven (a / u)
        in if 1023 < e \<or> (e = 1023 \<and> m = 2 ^ 53) then (if q < 0 then NegInf else PosInf)
           else Fin (if q < 0 then - (of_int m * u) else of_int m * u))"

subsection \<open>Arithmetic\<close>

fun js_sub :: "jsnum \<Rightarrow> jsnum \<Rightarrow> jsnum" where

  \<comment> \<open>\<^verbatim>\<open>a - b\<close>\<close>
  "js_sub NaN _ = NaN"
| "js_sub _ NaN = NaN"
| "js_sub (Fin a) (Fin b) = toDouble (a - b)"

| "js_sub (Fin _) PosInf = NegInf"
| "js_sub (Fin _) NegInf = PosInf"
| "js_sub PosInf PosInf = NaN"
| "js_sub PosInf _ = PosInf"
| "js_sub NegInf NegInf = NaN"
| "js_sub NegInf _ = NegInf"

definition js_sgn :: "jsnum \<Rightarrow> int" where
  "js_sgn x =
     (case x of
        NaN \<Rightarrow> 0
      | NegInf \<Rightarrow> - 1
      | PosInf \<Rightarrow> 1
      | Fin q \<Rightarrow> if q < 0 then - 1 else if q = 0 then 0 else 1)"

fun js_mul :: "jsnum \<Rightarrow> jsnum \<Rightarrow> jsnum" where
  \<comment> \<open>\<^verbatim>\<open>a * b\<close>: zero times an infinity is \<open>NaN\<close>\<close>
  "js_mul NaN _ = NaN"
| "js_mul _ NaN = NaN"
| "js_mul (Fin a) (Fin b) = toDouble (a * b)"

| "js_mul a b =
     (let s = js_sgn a * js_sgn b
      in if s = 0 then NaN else if s < 0 then NegInf else PosInf)"

fun js_div :: "jsnum \<Rightarrow> jsnum \<Rightarrow> jsnum" where
  \<comment> \<open>\<^verbatim>\<open>a / b\<close>: \<open>0 / 0\<close> and \<open>\<infinity> / \<infinity>\<close> are \<open>NaN\<close>, \<open>x / 0\<close> is an infinity\<close>
  "js_div NaN _ = NaN"
| "js_div _ NaN = NaN"
| "js_div (Fin a) (Fin b) =
     (if b \<noteq> 0 then toDouble (a / b)

      else if a = 0 then NaN else if a < 0 then NegInf else PosInf)"
| "js_div (Fin _) _ = Fin 0"
| "js_div a (Fin b) =
     (if js_sgn a * (if b < 0 then - 1 else 1) < 0 then NegInf else PosInf)"
| "js_div _ _ = NaN"

fun Math_ceil :: "jsnum \<Rightarrow> jsnum" where
  \<comment> \<open>\<^verbatim>\<open>Math.ceil\<close>\<close>
  "Math_ceil (Fin q) = Fin (of_int \<lceil>q\<rceil>)"
| "Math_ceil x = x"

subsection \<open>String to number\<close>

text \<open>
  \<^verbatim>\<open>+s\<close> and \<^verbatim>\<open>Number(s)\<close> on a string follow the language's StringToNumber: white
  space is trimmed, the empty string is \<open>0\<close>, and the rest must be a whole numeric literal: an
  optionally signed decimal literal (digits, fraction, exponent, or \<^verbatim>\<open>Infinity\<close>) or an
  unsigned \<^verbatim>\<open>0x\<close>, \<^verbatim>\<open>0o\<close> or \<^verbatim>\<open>0b\<close> integer literal.  Anything else is \<open>NaN\<close>.  A \<open>char\<close>
  is one code unit below 256, so the white space beyond Latin-1 is not represented.
\<close>

definition isStrWhiteSpaceChar :: "char \<Rightarrow> bool" where
  "isStrWhiteSpaceChar c = ((of_char c :: nat) \<in> {9, 10, 11, 12, 13, 32, 160})"

definition trim :: "string \<Rightarrow> string" where
  "trim s = rev (dropWhile isStrWhiteSpaceChar (rev (dropWhile isStrWhiteSpaceChar s)))"

definition digitValue :: "char \<Rightarrow> nat option" where
  \<comment> \<open>the value of a digit of any radix up to 36, letters in either case\<close>
  "digitValue c =
     (let n = (of_char c :: nat)
      in if 48 \<le> n \<and> n \<le> 57 then Some (n - 48)
         else if 97 \<le> n \<and> n \<le> 122 then Some (n - 87)
         else if 65 \<le> n \<and> n \<le> 90 then Some (n - 55)
         else None)"

definition isDigitOf :: "nat \<Rightarrow> char \<Rightarrow> bool" where
  "isDigitOf radix c = (case digitValue c of Some d \<Rightarrow> d < radix | None \<Rightarrow> False)"

definition digitsValue :: "nat \<Rightarrow> string \<Rightarrow> int" where
  "digitsValue radix ds =
     foldl (\<lambda>a c. int radix * a + (case digitValue c of Some d \<Rightarrow> int d | None \<Rightarrow> 0)) 0 ds"

definition pow10 :: "int \<Rightarrow> rat" where
  "pow10 e = (if 0 \<le> e then 10 ^ nat e else 1 / 10 ^ nat (- e))"

definition exponentPart :: "string \<Rightarrow> int option" where
  \<comment> \<open>the rest of a decimal literal after its digits: nothing, or \<^verbatim>\<open>e\<close>, a sign, digits\<close>
  "exponentPart r =
     (case r of
        [] \<Rightarrow> Some 0
      | c # t \<Rightarrow>
          if c = CHR ''e'' \<or> c = CHR ''E'' then
            (let (neg, ds) = (case t of
                                [] \<Rightarrow> (False, [])
                              | d # u \<Rightarrow> if d = CHR ''-'' then (True, u)
                                         else if d = CHR ''+'' then (False, u)
                                         else (False, t))
             in if ds \<noteq> [] \<and> list_all (isDigitOf 10) ds
                then Some (if neg then - digitsValue 10 ds else digitsValue 10 ds)
                else None)
          else None)"

definition unsignedDecimal :: "string \<Rightarrow> jsnum" where
  "unsignedDecimal s =
     (if s = ''Infinity'' then PosInf
      else
        let ip = takeWhile (isDigitOf 10) s;
            r1 = dropWhile (isDigitOf 10) s;
            (fp, r2) = (case r1 of
                          [] \<Rightarrow> ([], [])
                        | c # t \<Rightarrow> if c = CHR ''.''
                                   then (takeWhile (isDigitOf 10) t, dropWhile (isDigitOf 10) t)
                                   else ([], r1))
        in if ip = [] \<and> fp = [] then NaN
           else case exponentPart r2 of
                  None \<Rightarrow> NaN
                | Some e \<Rightarrow>
                    toDouble ((of_int (digitsValue 10 ip)
                                 + of_int (digitsValue 10 fp) / 10 ^ length fp) * pow10 e))"

definition js_neg :: "jsnum \<Rightarrow> jsnum" where
  "js_neg x = (case x of NaN \<Rightarrow> NaN | NegInf \<Rightarrow> PosInf | PosInf \<Rightarrow> NegInf | Fin q \<Rightarrow> Fin (- q))"

definition radixLiteral :: "string \<Rightarrow> jsnum option" where
  \<comment> \<open>\<^verbatim>\<open>0x\<close>, \<^verbatim>\<open>0o\<close>, \<^verbatim>\<open>0b\<close> literals; \<open>None\<close> when the string has no such prefix\<close>
  "radixLiteral s =
     (case s of
        z # p # ds \<Rightarrow>
          if z = CHR ''0'' then
            (let radix = (if p = CHR ''x'' \<or> p = CHR ''X'' then 16
                          else if p = CHR ''o'' \<or> p = CHR ''O'' then 8
                          else if p = CHR ''b'' \<or> p = CHR ''B'' then 2
                          else (0::nat))
             in if radix = 0 then None
                else if ds \<noteq> [] \<and> list_all (isDigitOf radix) ds
                     then Some (toDouble (of_int (digitsValue radix ds)))
                     else Some NaN)
          else None
      | _ \<Rightarrow> None)"

definition toNumber :: "string \<Rightarrow> jsnum" where
  "toNumber str =
     (let s = trim str
      in if s = [] then Fin 0
         else case radixLiteral s of
                Some v \<Rightarrow> v
              | None \<Rightarrow>
                  (case s of
                     c # t \<Rightarrow> if c = CHR ''-'' then js_neg (unsignedDecimal t)
                                else if c = CHR ''+'' then unsignedDecimal t
                                else unsignedDecimal s
                   | [] \<Rightarrow> Fin 0))"

subsection \<open>Query-string values and request bodies\<close>

text \<open>
  A value of \<^verbatim>\<open>req.query\<close> is a string, an array (a repeated parameter) or an object (a
  bracketed parameter); an absent parameter is \<open>None\<close>.  \<open>toStr\<close> is the language's string
  conversion, which \<^verbatim>\<open>+v\<close> and a template literal apply to such a value.
\<close>

datatype qval = QStr string | QArr "qval list" | QObj

fun joinComma :: "string list \<Rightarrow> string" where
  "joinComma [] = []"
| "joinComma [s] = s"
| "joinComma (s # t) = s @ '','' @ joinComma t"

fun toStr :: "qval \<Rightarrow> string" where
  "toStr (QStr s) = s"
| "toStr (QArr vs) = joinComma (map toStr vs)"
| "toStr QObj = ''[object Object]''"


definition unaryPlus :: "jsnum \<Rightarrow> qval option \<Rightarrow> jsnum" where
  \<comment> \<open>\<^verbatim>\<open>+v\<close> for a destructured \<^verbatim>\<open>v = dflt\<close>: the default only replaces an absent value\<close>
  "unaryPlus dflt v = (case v of None \<Rightarrow> dflt | Some w \<Rightarrow> toNumber (toStr w))"

type_synonym query = "string \<Rightarrow> qval option"

definition currentPage :: "query \<Rightarrow> jsnum" where
  \<comment> \<open>\<^verbatim>\<open>Math.max(1, +page)\<close> with \<^verbatim>\<open>page = 1\<close>\<close>
  "currentPage q = Math_max (Fin 1) (unaryPlus (Fin 1) (q ''page''))"

definition limitPerPage :: "query \<Rightarrow> jsnum" where
  \<comment> \<open>\<^verbatim>\<open>Math.max(1, +limit)\<close> with \<^verbatim>\<open>limit = 10\<close>\<close>
  "limitPerPage q = Math_max (Fin 1) (unaryPlus (Fin 10) (q ''limit''))"

definition offset :: "query \<Rightarrow> jsnum" where
  \<comment> \<open>\<^verbatim>\<open>(currentPage - 1) * limitPerPage\<close>\<close>
  "offset q = js_mul (js_sub (currentPage q) (Fin 1)) (limitPerPage q)"

datatype json = JNull | JBool bool | JNum rat | JStr string | JArr "json list"
  | JObj "(string \<times> json) list"

type_synonym reqbody = "string \<Rightarrow> json option"

fun substring :: "nat \<Rightarrow> nat \<Rightarrow> string \<Rightarrow> string" where
  \<comment> \<open>\<^verbatim>\<open>s.substring(a, b)\<close>: both indices are clamped to the length and swapped if needed\<close>
  "substring a b s =
     (let a' = min a (length s); b' = min b (length s)
      in take (max a' b' - min a' b') (drop (min a' b') s))"

section \<open>The store\<close>

text \<open>
  The tables \<^verbatim>\<open>departments\<close> and \<^verbatim>\<open>subjects\<close> are declared in the schema file; each is a
  list of rows.  Time stamps are integers, optional columns are \<open>option\<close>s.
\<close>

record department_row =
  d_id :: int
  d_code :: string
  d_name :: string
  d_description :: "string option"
  d_createdAt :: int
  d_updatedAt :: int

record subject_row =
  s_id :: int
  s_departmentId :: int
  s_code :: string
  s_name :: string
  s_description :: "string option"
  s_createdAt :: int
  s_updatedAt :: int

text \<open>
  Modelled from the spec: the table \<^verbatim>\<open>user\<close>, whose declaration is not among the sources.
  The columns are the ones the handlers select; the id is the string the handlers compare
  with the path parameter, the role is a string, \<^verbatim>\<open>admin\<close>, \<^verbatim>\<open>teacher\<close> or \<^verbatim>\<open>student\<close> in the
  spec.
\<close>

record user_row =
  u_id :: string
  u_name :: string
  u_email :: string
  u_emailVerified :: bool
  u_image :: "string option"
  u_role :: string
  u_imageCldPubId :: "string option"
  u_createdAt :: int
  u_updatedAt :: int

text \<open>
  Modelled from the spec: the table \<^verbatim>\<open>classes\<close>, whose declaration is not among the sources.
  The columns are the ones \<^verbatim>\<open>POST /classes\<close> inserts, the id and the time stamps; a class
  has exactly one subject and one teacher.  The columns that no handler computes with keep
  the JSON value they were given.
\<close>

record class_row =
  c_id :: int
  c_subjectId :: int
  c_teacherId :: string
  c_inviteCode :: string
  c_name :: string
  c_bannerCldPubId :: "json option"
  c_bannerUrl :: "json option"
  c_capacity :: "json option"
  c_description :: "json option"
  c_schedules :: "json list"
  c_status :: "json option"
  c_createdAt :: int
  c_updatedAt :: int

text \<open>
  Modelled from the spec: the table \<^verbatim>\<open>enrollments\<close>, whose declaration is not among the
  sources: an enrollment links a student to a class.
\<close>

record enrollment_row =
  e_studentId :: string
  e_classId :: int

record db =
  user :: "user_row list"
  departments :: "department_row list"
  subjects :: "subject_row list"
  classes :: "class_row list"
  enrollments :: "enrollment_row list"

subsection \<open>The query builder\<close>

text \<open>
  A query is evaluated on one snapshot of the store.  A left join keeps every row of its left
  side: once per matching row of the table, or once with \<open>None\<close> for the table's columns when
  nothing matches.  A comparison with a column of an absent row is not true.
\<close>

definition leftJoin :: "'a list \<Rightarrow> 'b list \<Rightarrow> ('a \<Rightarrow> 'b \<Rightarrow> bool) \<Rightarrow> ('a \<times> 'b option) list" where
  "leftJoin rows tbl on =
     concat (map (\<lambda>l. case filter (on l) tbl of
                         [] \<Rightarrow> [(l, None)]
                       | ms \<Rightarrow> map (\<lambda>r. (l, Some r)) ms) rows)"

definition col :: "('r \<Rightarrow> 'v) \<Rightarrow> 'r option \<Rightarrow> 'v option" where
  \<comment> \<open>a column of a joined table\<close>
  "col f r = map_option f r"

definition sql_eq :: "'v option \<Rightarrow> 'v option \<Rightarrow> bool" where
  \<comment> \<open>\<^verbatim>\<open>eq(a, b)\<close> as a condition: true only when both sides are present and equal\<close>
  "sql_eq a b = (case (a, b) of (Some x, Some y) \<Rightarrow> x = y | _ \<Rightarrow> False)"

definition countAll :: "'r list \<Rightarrow> jsnum" where
  \<comment> \<open>\<^verbatim>\<open>count(*)\<close>, a number as the handlers type it; a table has fewer than \<open>2^53\<close> rows\<close>

  "countAll rows = Fin (of_nat (length rows))"

definition countDistinct :: "('r \<Rightarrow> 'k) \<Rightarrow> 'r list \<Rightarrow> jsnum" where
  \<comment> \<open>\<^verbatim>\<open>count(distinct k)\<close> for a column that is never null\<close>
  "countDistinct k rows = Fin (of_nat (length (remdups (map k rows))))"

definition groupBy :: "('r \<Rightarrow> 'g) \<Rightarrow> 'r list \<Rightarrow> 'g list" where
  \<comment> \<open>selecting exactly the grouping columns: one row for each distinct combination\<close>
  "groupBy g rows = remdups (map g rows)"

definition orderByDesc :: "('r \<Rightarrow> int) \<Rightarrow> 'r list \<Rightarrow> 'r list" where
  \<comment> \<open>\<^verbatim>\<open>orderBy(desc(k))\<close>; the engine leaves the order of equal keys open, the model fixes one\<close>
  "orderByDesc k rows = rev (sort_key k rows)"

text \<open>
  The query builder and the engine are libraries; the handlers hand them whatever number
  they computed, and every failure of a query is an exception raised inside the handler's
  \<^verbatim>\<open>try\<close>.  Their part is written out as follows.

  \<^item> A parameter compared with an \<^verbatim>\<open>integer\<close> column must be an integer of 32 bits; the
    engine rejects any other number and the query raises.
  \<^item> The builder writes a \<^verbatim>\<open>LIMIT\<close> clause only for a number that is \<^verbatim>\<open>>= 0\<close> and an
    \<^verbatim>\<open>OFFSET\<close> clause only for a truthy number, so \<open>NaN\<close> leaves either clause out, and so
    does an offset of 0.
  \<^item> The engine reads the parameter of a clause that is there as a \<^verbatim>\<open>bigint\<close>: it must be
    an integer from 0 to \<open>2^63 - 1\<close>; for any other number the query raises.
\<close>

datatype thrown = ErrorConstructor | StoreFailure

definition intParam :: "jsnum \<Rightarrow> thrown + int" where
  \<comment> \<open>a parameter for a 32-bit \<^verbatim>\<open>integer\<close> column\<close>
  "intParam x =
     (case x of
        Fin q \<Rightarrow> if of_int \<lfloor>q\<rfloor> = q \<and> - (2 ^ 31) \<le> q \<and> q < 2 ^ 31 then Inr \<lfloor>q\<rfloor>
                 else Inl StoreFailure
      | _ \<Rightarrow> Inl StoreFailure)"

datatype clause = Omitted | Rows nat | Rejected

definition bigintClause :: "jsnum \<Rightarrow> clause" where
  \<comment> \<open>the parameter of a clause that the builder wrote\<close>
  "bigintClause x =
     (case x of
        Fin q \<Rightarrow> if of_int \<lfloor>q\<rfloor> = q \<and> 0 \<le> q \<and> q < 2 ^ 63 then Rows (nat \<lfloor>q\<rfloor>) else Rejected
      | _ \<Rightarrow> Rejected)"

definition limitClause :: "jsnum \<Rightarrow> clause" where
  \<comment> \<open>\<^verbatim>\<open>.limit(l)\<close>: written when \<^verbatim>\<open>typeof l === "number" && l >= 0\<close>\<close>
  "limitClause l = (if js_le (Fin 0) l then bigintClause l else Omitted)"

definition offsetClause :: "jsnum \<Rightarrow> clause" where
  \<comment> \<open>\<^verbatim>\<open>.offset(k)\<close>: written when \<open>k\<close> is truthy, that is neither \<open>NaN\<close> nor 0\<close>
  "offsetClause k = (if k = NaN \<or> k = Fin 0 then Omitted else bigintClause k)"

definition limitOffset :: "jsnum \<Rightarrow> jsnum \<Rightarrow> 'r list \<Rightarrow> thrown + 'r list" where
  \<comment> \<open>\<^verbatim>\<open>.limit(l).offset(k)\<close> on the ordered rows: the offset is skipped first\<close>
  "limitOffset l k rows =
     (if limitClause l = Rejected \<or> offsetClause k = Rejected then Inl StoreFailure
      else
        let rest = (case offsetClause k of Rows m \<Rightarrow> drop m rows | _ \<Rightarrow> rows)
        in Inr (case limitClause l of Rows n \<Rightarrow> take n rest | _ \<Rightarrow> rest))"

definition accepted :: "query \<Rightarrow> bool" where
  \<comment> \<open>the engine takes the window that page and limit describe\<close>
  "accepted q = (limitClause (limitPerPage q) \<noteq> Rejected \<and> offsetClause (offset q) \<noteq> Rejected)"






section \<open>Responses\<close>

record pagination =
  pg_page :: jsnum
  pg_limit :: jsnum
  pg_total :: jsnum
  pg_totalPages :: jsnum

datatype item =
    UserItem user_row
  | DepartmentItem department_row
  | SubjectItem subject_row "department_row option"
  | ClassItem class_row "subject_row option" "user_row option"
  | SubjectClassItem class_row "user_row option"

datatype body =
    Error string
  | Page "item list" pagination
  | UserData user_row
  | SubjectData subject_row "department_row option" jsnum
  | ClassData class_row "subject_row option" "department_row option" "user_row option"
  | Created int

record response =
  status :: nat
  body :: body

definition errorResponse :: "nat \<Rightarrow> string \<Rightarrow> response" where
  \<comment> \<open>\<^verbatim>\<open>res.status(n).json({ error: msg })\<close>\<close>
  "errorResponse n msg = \<lparr>status = n, body = Error msg\<rparr>"

definition tryCatch :: "string \<Rightarrow> thrown + response \<Rightarrow> response" where
  \<comment> \<open>\<^verbatim>\<open>try { ... } catch (error) { res.status(500).json({ error: msg }) }\<close>\<close>
  "tryCatch msg attempt = (case attempt of Inl e \<Rightarrow> errorResponse 500 msg | Inr r \<Rightarrow> r)"

definition awaited :: "thrown + 'a \<Rightarrow> ('a \<Rightarrow> thrown + 'b) \<Rightarrow> thrown + 'b" where
  \<comment> \<open>\<^verbatim>\<open>const x = await query; ...\<close>: a query that raises ends the \<^verbatim>\<open>try\<close> block\<close>
  "awaited query rest = (case query of Inl e \<Rightarrow> Inl e | Inr x \<Rightarrow> rest x)"

definition listResponse :: "item list \<Rightarrow> query \<Rightarrow> jsnum \<Rightarrow> response" where
  \<comment> \<open>the envelope every list handler builds from its page of rows and its count\<close>
  "listResponse rows q totalCount =
     \<lparr>status = 200,
      body = Page rows
        \<lparr>pg_page = currentPage q,
         pg_limit = limitPerPage q,
         pg_total = totalCount,
         pg_totalPages = Math_ceil (js_div totalCount (limitPerPage q))\<rparr>\<rparr>"

definition emptyPage :: response where
  \<comment> \<open>the literal answer of the user routes for a role that is neither teacher nor student\<close>
  "emptyPage =
     \<lparr>status = 200,
      body = Page [] \<lparr>pg_page = Fin 1, pg_limit = Fin 0, pg_total = Fin 0, pg_totalPages = Fin 0\<rparr>\<rparr>"

section \<open>The user routes\<close>

text \<open>
  Every handler is one \<^verbatim>\<open>try\<close> block with a \<^verbatim>\<open>catch\<close> that answers 500 and the route's
  message.  A query raises when the engine rejects one of its parameters; a comparison of the
  path id with the text column \<^verbatim>\<open>user.id\<close> has no parameter to reject.
\<close>

definition firstRow :: "'r list \<Rightarrow> 'r option" where
  \<comment> \<open>\<^verbatim>\<open>const [row] = rows\<close>: \<open>None\<close> is \<^verbatim>\<open>undefined\<close>\<close>
  "firstRow rows = (case rows of [] \<Rightarrow> None | row # _ \<Rightarrow> Some row)"

definition userRecord :: "db \<Rightarrow> string \<Rightarrow> user_row option" where
  \<comment> \<open>\<^verbatim>\<open>select().from(user).where(eq(user.id, userId))\<close>, first row\<close>
  "userRecord d userId = firstRow (filter (\<lambda>u. u_id u = userId) (user d))"


definition getUser :: "db \<Rightarrow> string \<Rightarrow> response" where
  \<comment> \<open>\<^verbatim>\<open>GET /users/:id\<close>\<close>
  "getUser d userId =
     (case userRecord d userId of
        None \<Rightarrow> errorResponse 404 ''User not found''
      | Some u \<Rightarrow> \<lparr>status = 200, body = UserData u\<rparr>)"

definition departmentsJoin :: "db \<Rightarrow> string \<Rightarrow> string \<Rightarrow> department_row list" where
  \<comment> \<open>from, joins and where of both queries of \<^verbatim>\<open>GET /users/:id/departments\<close>,
      with the department of every row that is left\<close>
  "departmentsJoin d role userId =
     (if role = ''teacher'' then
        map (\<lambda>((dp, s), c). dp)
          (filter (\<lambda>((dp, s), c). sql_eq (col c_teacherId c) (Some userId))
             (leftJoin
                (leftJoin (departments d) (subjects d) (\<lambda>dp s. s_departmentId s = d_id dp))
                (classes d) (\<lambda>(dp, s) c. sql_eq (Some (c_subjectId c)) (col s_id s))))
      else
        map (\<lambda>(((dp, s), c), e). dp)
          (filter (\<lambda>(((dp, s), c), e). sql_eq (col e_studentId e) (Some userId))
             (leftJoin
                (leftJoin
                   (leftJoin (departments d) (subjects d) (\<lambda>dp s. s_departmentId s = d_id dp))
                   (classes d) (\<lambda>(dp, s) c. sql_eq (Some (c_subjectId c)) (col s_id s)))
                (enrollments d) (\<lambda>((dp, s), c) e. sql_eq (Some (e_classId e)) (col c_id c)))))"

definition departmentsList :: "db \<Rightarrow> string \<Rightarrow> string \<Rightarrow> department_row list" where
  \<comment> \<open>the data query of \<^verbatim>\<open>GET /users/:id/departments\<close> before its window\<close>
  "departmentsList d role userId =
     orderByDesc d_createdAt (groupBy (\<lambda>dp. dp) (departmentsJoin d role userId))"

definition getUserDepartments :: "db \<Rightarrow> string \<Rightarrow> query \<Rightarrow> response" where
  \<comment> \<open>\<^verbatim>\<open>GET /users/:id/departments\<close>\<close>
  "getUserDepartments d userId q =
     tryCatch ''Failed to fetch user departments''
       (case userRecord d userId of
          None \<Rightarrow> Inr (errorResponse 404 ''User not found'')
        | Some u \<Rightarrow>
            if u_role u \<noteq> ''teacher'' \<and> u_role u \<noteq> ''student''
            then Inr emptyPage
            else
              let totalCount = countDistinct d_id (departmentsJoin d (u_role u) userId)
              in awaited
                   (limitOffset (limitPerPage q) (offset q)
                      (departmentsList d (u_role u) userId))
                   (\<lambda>rows. Inr (listResponse (map DepartmentItem rows) q totalCount)))"

definition subjectsCountJoin :: "db \<Rightarrow> string \<Rightarrow> string \<Rightarrow> subject_row list" where
  \<comment> \<open>from, joins and where of the count query of \<^verbatim>\<open>GET /users/:id/subjects\<close>\<close>
  "subjectsCountJoin d role userId =
     (if role = ''teacher'' then
        map (\<lambda>(s, c). s)
          (filter (\<lambda>(s, c). sql_eq (col c_teacherId c) (Some userId))
             (leftJoin (subjects d) (classes d) (\<lambda>s c. c_subjectId c = s_id s)))
      else
        map (\<lambda>((s, c), e). s)
          (filter (\<lambda>((s, c), e). sql_eq (col e_studentId e) (Some userId))
             (leftJoin
                (leftJoin (subjects d) (classes d) (\<lambda>s c. c_subjectId c = s_id s))
                (enrollments d) (\<lambda>(s, c) e. sql_eq (Some (e_classId e)) (col c_id c)))))"

definition subjectsDataJoin ::
  "db \<Rightarrow> string \<Rightarrow> string \<Rightarrow> (subject_row \<times> department_row option) list" where
  \<comment> \<open>from, joins and where of the data query of \<^verbatim>\<open>GET /users/:id/subjects\<close>, which joins
      the department of each subject first\<close>
  "subjectsDataJoin d role userId =
     (if role = ''teacher'' then
        map (\<lambda>((s, dp), c). (s, dp))
          (filter (\<lambda>((s, dp), c). sql_eq (col c_teacherId c) (Some userId))
             (leftJoin
                (leftJoin (subjects d) (departments d) (\<lambda>s dp. s_departmentId s = d_id dp))
                (classes d) (\<lambda>(s, dp) c. c_subjectId c = s_id s)))
      else
        map (\<lambda>(((s, dp), c), e). (s, dp))
          (filter (\<lambda>(((s, dp), c), e). sql_eq (col e_studentId e) (Some userId))
             (leftJoin
                (leftJoin
                   (leftJoin (subjects d) (departments d) (\<lambda>s dp. s_departmentId s = d_id dp))
                   (classes d) (\<lambda>(s, dp) c. c_subjectId c = s_id s))
                (enrollments d) (\<lambda>((s, dp), c) e. sql_eq (Some (e_classId e)) (col c_id c)))))"

definition subjectsList ::
  "db \<Rightarrow> string \<Rightarrow> string \<Rightarrow> (subject_row \<times> department_row option) list" where
  \<comment> \<open>the data query of \<^verbatim>\<open>GET /users/:id/subjects\<close> before its window\<close>
  "subjectsList d role userId =
     orderByDesc (\<lambda>(s, dp). s_createdAt s) (groupBy (\<lambda>r. r) (subjectsDataJoin d role userId))"

definition getUserSubjects :: "db \<Rightarrow> string \<Rightarrow> query \<Rightarrow> response" where
  \<comment> \<open>\<^verbatim>\<open>GET /users/:id/subjects\<close>\<close>
  "getUserSubjects d userId q =
     tryCatch ''Failed to fetch user subjects''
       (case userRecord d userId of
          None \<Rightarrow> Inr (errorResponse 404 ''User not found'')
        | Some u \<Rightarrow>
            if u_role u \<noteq> ''teacher'' \<and> u_role u \<noteq> ''student''
            then Inr emptyPage
            else
              let totalCount = countDistinct s_id (subjectsCountJoin d (u_role u) userId)
              in awaited
                   (limitOffset (limitPerPage q) (offset q)
                      (subjectsList d (u_role u) userId))
                   (\<lambda>rows. Inr (listResponse (map (\<lambda>(s, dp). SubjectItem s dp) rows) q
                                     totalCount)))"

section \<open>The subject routes\<close>


definition getSubject :: "db \<Rightarrow> string \<Rightarrow> response" where
  \<comment> \<open>\<^verbatim>\<open>GET /subjects/:id\<close>\<close>
  "getSubject d pid =
     tryCatch ''Failed to fetch subject details''
       (let subjectId = toNumber pid
        in if \<not> isFinite subjectId then Inr (errorResponse 400 ''Invalid subject id'')
           else awaited (intParam subjectId)
                  (\<lambda>sid.
                     case firstRow
                            (filter (\<lambda>(s, dp). s_id s = sid)
                               (leftJoin (subjects d) (departments d)
                                  (\<lambda>s dp. s_departmentId s = d_id dp))) of
                       None \<Rightarrow> Inr (errorResponse 404 ''Subject not found'')
                     | Some (subject, dp) \<Rightarrow>
                         Inr \<lparr>status = 200,
                              body = SubjectData subject dp
                                (countAll (filter (\<lambda>c. c_subjectId c = sid) (classes d)))\<rparr>))"

definition getSubjectClasses :: "db \<Rightarrow> string \<Rightarrow> query \<Rightarrow> response" where
  \<comment> \<open>\<^verbatim>\<open>GET /subjects/:id/classes\<close>\<close>
  "getSubjectClasses d pid q =
     tryCatch ''Failed to fetch subject classes''
       (let subjectId = toNumber pid
        in if \<not> isFinite subjectId then Inr (errorResponse 400 ''Invalid subject id'')
           else awaited (intParam subjectId)
                  (\<lambda>sid.
                     let totalCount = countAll (filter (\<lambda>c. c_subjectId c = sid) (classes d))
                     in awaited
                          (limitOffset (limitPerPage q) (offset q)
                             (orderByDesc (\<lambda>(c, u). c_createdAt c)
                                (filter (\<lambda>(c, u). c_subjectId c = sid)
                                   (leftJoin (classes d) (user d)
                                      (\<lambda>c u. c_teacherId c = u_id u)))))
                          (\<lambda>classesList.
                             Inr (listResponse
                                    (map (\<lambda>(c, u). SubjectClassItem c u) classesList) q
                                    totalCount))))"

definition subjectUsersJoin :: "db \<Rightarrow> string \<Rightarrow> int \<Rightarrow> user_row list" where
  \<comment> \<open>from, joins and where of both queries of \<^verbatim>\<open>GET /subjects/:id/users\<close>\<close>
  "subjectUsersJoin d role sid =
     (if role = ''teacher'' then
        map (\<lambda>(u, c). u)
          (filter (\<lambda>(u, c). u_role u = role \<and> sql_eq (col c_subjectId c) (Some sid))
             (leftJoin (user d) (classes d) (\<lambda>u c. u_id u = c_teacherId c)))
      else
        map (\<lambda>((u, e), c). u)
          (filter (\<lambda>((u, e), c). u_role u = role \<and> sql_eq (col c_subjectId c) (Some sid))
             (leftJoin
                (leftJoin (user d) (enrollments d) (\<lambda>u e. u_id u = e_studentId e))
                (classes d) (\<lambda>(u, e) c. sql_eq (col e_classId e) (Some (c_id c))))))"

definition validRole :: "qval option \<Rightarrow> string option" where
  \<comment> \<open>\<^verbatim>\<open>role !== "teacher" && role !== "student"\<close> is the case \<open>None\<close>\<close>
  "validRole role =
     (case role of
        Some (QStr r) \<Rightarrow> if r = ''teacher'' \<or> r = ''student'' then Some r else None
      | _ \<Rightarrow> None)"

definition getSubjectUsers :: "db \<Rightarrow> string \<Rightarrow> query \<Rightarrow> response" where
  \<comment> \<open>\<^verbatim>\<open>GET /subjects/:id/users\<close>\<close>
  "getSubjectUsers d pid q =
     tryCatch ''Failed to fetch subject users''
       (let subjectId = toNumber pid
        in if \<not> isFinite subjectId then Inr (errorResponse 400 ''Invalid subject id'')
           else case validRole (q ''role'') of
                  None \<Rightarrow> Inr (errorResponse 400 ''Invalid role'')
                | Some role \<Rightarrow>
                    awaited (intParam subjectId)
                      (\<lambda>sid.
                         let totalCount = countDistinct u_id (subjectUsersJoin d role sid)
                         in awaited
                              (limitOffset (limitPerPage q) (offset q)
                                 (orderByDesc u_createdAt
                                    (groupBy (\<lambda>u. u) (subjectUsersJoin d role sid))))
                              (\<lambda>usersList.
                                 Inr (listResponse (map UserItem usersList) q totalCount))))"

section \<open>The class routes\<close>


definition getClass :: "db \<Rightarrow> string \<Rightarrow> response" where
  \<comment> \<open>\<^verbatim>\<open>GET /classes/:id\<close>\<close>
  "getClass d pid =
     tryCatch ''Failed to fetch class details''
       (let classId = toNumber pid
        in if \<not> isFinite classId then Inr (errorResponse 400 ''Invalid class id'')
           else awaited (intParam classId)
                  (\<lambda>cid.
                     case firstRow
                            (filter (\<lambda>(((c, s), dp), u). c_id c = cid)
                               (leftJoin
                                  (leftJoin
                                     (leftJoin (classes d) (subjects d)
                                        (\<lambda>c s. c_subjectId c = s_id s))
                                     (departments d)
                                     (\<lambda>(c, s) dp. sql_eq (col s_departmentId s) (Some (d_id dp))))
                                  (user d) (\<lambda>((c, s), dp) u. c_teacherId c = u_id u))) of
                       None \<Rightarrow> Inr (errorResponse 404 ''Class not found'')
                     | Some (((c, s), dp), u) \<Rightarrow>
                         Inr \<lparr>status = 200, body = ClassData c s dp u\<rparr>))"

definition classUsersJoin :: "db \<Rightarrow> string \<Rightarrow> int \<Rightarrow> user_row list" where
  \<comment> \<open>from, joins and where of both queries of \<^verbatim>\<open>GET /classes/:id/users\<close>\<close>
  "classUsersJoin d role cid =
     (if role = ''teacher'' then
        map (\<lambda>(u, c). u)
          (filter (\<lambda>(u, c). u_role u = role \<and> sql_eq (col c_id c) (Some cid))
             (leftJoin (user d) (classes d) (\<lambda>u c. u_id u = c_teacherId c)))
      else
        map (\<lambda>(u, e). u)
          (filter (\<lambda>(u, e). u_role u = role \<and> sql_eq (col e_classId e) (Some cid))
             (leftJoin (user d) (enrollments d) (\<lambda>u e. u_id u = e_studentId e))))"

definition getClassUsers :: "db \<Rightarrow> string \<Rightarrow> query \<Rightarrow> response" where
  \<comment> \<open>\<^verbatim>\<open>GET /classes/:id/users\<close>\<close>
  "getClassUsers d pid q =
     tryCatch ''Failed to fetch class users''
       (let classId = toNumber pid
        in if \<not> isFinite classId then Inr (errorResponse 400 ''Invalid class id'')
           else case validRole (q ''role'') of
                  None \<Rightarrow> Inr (errorResponse 400 ''Invalid role'')
                | Some role \<Rightarrow>
                    awaited (intParam classId)
                      (\<lambda>cid.
                         let totalCount = countDistinct u_id (classUsersJoin d role cid)
                         in awaited
                              (limitOffset (limitPerPage q) (offset q)
                                 (orderByDesc u_createdAt
                                    (groupBy (\<lambda>u. u) (classUsersJoin d role cid))))
                              (\<lambda>usersList.
                                 Inr (listResponse (map UserItem usersList) q totalCount))))"

subsection \<open>The list endpoints together\<close>



section \<open>Creation\<close>

text \<open>
  A \<^verbatim>\<open>POST\<close> handler hands the values it built to the store and reads the rows the store
  returns.  The store is a parameter \<open>dbInsert\<close>: it either raises or returns the list of
  created ids together with its new state.  \<^verbatim>\<open>throw Error\<close> raises the constructor
  \<^verbatim>\<open>Error\<close> itself (\<open>ErrorConstructor\<close>); whatever is raised inside \<^verbatim>\<open>try\<close> reaches the
  \<^verbatim>\<open>catch\<close> block, which answers with status 500.
\<close>

record subject_values =

  sv_departmentId :: "json option"
  sv_name :: "json option"
  sv_code :: "json option"
  sv_description :: "json option"

record class_values =
  cv_subjectId :: "json option"
  cv_inviteCode :: string
  cv_name :: "json option"
  cv_teacherId :: "json option"
  cv_bannerCldPubId :: "json option"
  cv_bannerUrl :: "json option"
  cv_capacity :: "json option"
  cv_description :: "json option"
  cv_schedules :: "json list"
  cv_status :: "json option"

definition subjectValues :: "reqbody \<Rightarrow> subject_values" where
  \<comment> \<open>\<^verbatim>\<open>{ departmentId, name, code, description }\<close> of \<^verbatim>\<open>req.body\<close>\<close>
  "subjectValues b =
     \<lparr>sv_departmentId = b ''departmentId'', sv_name = b ''name'', sv_code = b ''code'',
      sv_description = b ''description''\<rparr>"

definition classValues :: "reqbody \<Rightarrow> string \<Rightarrow> class_values" where
  \<comment> \<open>the argument of \<^verbatim>\<open>.values\<close> in \<^verbatim>\<open>POST /classes\<close>; \<open>rnd\<close> is the string
      \<^verbatim>\<open>Math.random().toString(36)\<close>\<close>
  "classValues b rnd =
     \<lparr>cv_subjectId = b ''subjectId'',
      cv_inviteCode = substring 2 9 rnd,
      cv_name = b ''name'',
      cv_teacherId = b ''teacherId'',
      cv_bannerCldPubId = b ''bannerCldPubId'',
      cv_bannerUrl = b ''bannerUrl'',
      cv_capacity = b ''capacity'',
      cv_description = b ''description'',
      cv_schedules = [],
      cv_status = b ''status''\<rparr>"

definition created :: "string \<Rightarrow> (thrown + int list \<times> 'st) \<Rightarrow> 'st \<Rightarrow> response \<times> 'st" where
  \<comment> \<open>what both handlers do with the outcome of the insert: \<^verbatim>\<open>const [row] = ...\<close>,
      \<^verbatim>\<open>if (!row) throw Error\<close>, status 201, and the \<^verbatim>\<open>catch\<close> block\<close>
  "created msg outcome st =
     (let attempt =
            (case outcome of
               Inl e \<Rightarrow> (Inl e, st)
             | Inr (rows, st') \<Rightarrow>
                 (case firstRow rows of
                    None \<Rightarrow> (Inl ErrorConstructor, st')
                  | Some row \<Rightarrow> (Inr \<lparr>status = 201, body = Created row\<rparr>, st')))
      in case fst attempt of
           Inl e \<Rightarrow> (errorResponse 500 msg, snd attempt)
         | Inr r \<Rightarrow> (r, snd attempt))"

definition postSubjects ::
  "(subject_values \<Rightarrow> 'st \<Rightarrow> thrown + int list \<times> 'st) \<Rightarrow> reqbody \<Rightarrow> 'st \<Rightarrow> response \<times> 'st" where
  \<comment> \<open>\<^verbatim>\<open>POST /subjects\<close>\<close>
  "postSubjects dbInsert b st =
     created ''Failed to create subject'' (dbInsert (subjectValues b) st) st"

definition postClasses ::
  "(class_values \<Rightarrow> 'st \<Rightarrow> thrown + int list \<times> 'st) \<Rightarrow> reqbody \<Rightarrow> string \<Rightarrow> 'st
     \<Rightarrow> response \<times> 'st" where
  \<comment> \<open>\<^verbatim>\<open>POST /classes\<close>\<close>
  "postClasses dbInsert b rnd st =
     created ''Failed to create class'' (dbInsert (classValues b rnd) st) st"

text \<open>
  The language leaves the digits of \<^verbatim>\<open>toString(36)\<close> to the engine.  For a number in
  \<open>[0, 1)\<close> the result is \<^verbatim>\<open>0\<close> for zero and otherwise \<^verbatim>\<open>0.\<close> followed by at least one digit
  of \<^verbatim>\<open>0-9a-z\<close>, as few as identify the number: \<^verbatim>\<open>(0.5).toString(36)\<close> is \<^verbatim>\<open>0.i\<close>.
\<close>

definition isBase36 :: "char \<Rightarrow> bool" where
  "isBase36 c = (let n = (of_char c :: nat) in (48 \<le> n \<and> n \<le> 57) \<or> (97 \<le> n \<and> n \<le> 122))"

definition randomString :: "string \<Rightarrow> bool" where
  \<comment> \<open>the strings \<^verbatim>\<open>Math.random().toString(36)\<close> can be\<close>
  "randomString s =
     (s = ''0'' \<or> (take 2 s = ''0.'' \<and> drop 2 s \<noteq> [] \<and> list_all isBase36 (drop 2 s)))"

text \<open>
  Modelled from the spec: the store's insert into \<^verbatim>\<open>classes\<close>, which is the engine's work
  under a table declaration that is not among the sources.  It enforces what the spec lists
  (required fields, the unique invite code, existing subject and teacher), numbers the row,
  stamps it with the time \<open>now\<close> and returns its id.
\<close>

definition insertClass :: "int \<Rightarrow> class_values \<Rightarrow> db \<Rightarrow> thrown + int list \<times> db" where
  "insertClass now v d =
     (case (cv_subjectId v, cv_teacherId v, cv_name v) of
        (Some (JNum sid), Some (JStr tid), Some (JStr nm)) \<Rightarrow>
          if of_int \<lfloor>sid\<rfloor> = sid
             \<and> \<lfloor>sid\<rfloor> \<in> set (map s_id (subjects d))
             \<and> tid \<in> set (map u_id (user d))
             \<and> cv_inviteCode v \<notin> set (map c_inviteCode (classes d))
          then
            let newId = foldr max (map c_id (classes d)) 0 + 1;
                row = \<lparr>c_id = newId, c_subjectId = \<lfloor>sid\<rfloor>, c_teacherId = tid,
                       c_inviteCode = cv_inviteCode v, c_name = nm,
                       c_bannerCldPubId = cv_bannerCldPubId v, c_bannerUrl = cv_bannerUrl v,
                       c_capacity = cv_capacity v, c_description = cv_description v,
                       c_schedules = cv_schedules v, c_status = cv_status v,
                       c_createdAt = now, c_updatedAt = now\<rparr>
            in Inr ([newId], d\<lparr>classes := classes d @ [row]\<rparr>)
          else Inl StoreFailure
      | _ \<Rightarrow> Inl StoreFailure)"

section \<open>Related rows, in the words of the spec\<close>

text \<open>
  The related rows of a root entity, in the words of the join-path table: the departments and
  subjects a teacher reaches through the classes he teaches, the ones a student reaches
  through his enrollments, and the teachers and students of a subject or of a class.
\<close>

definition subjectsTaughtBy :: "db \<Rightarrow> string \<Rightarrow> subject_row set" where
  "subjectsTaughtBy d uid =
     {s \<in> set (subjects d). \<exists>c\<in>set (classes d). c_subjectId c = s_id s \<and> c_teacherId c = uid}"

definition subjectsAttendedBy :: "db \<Rightarrow> string \<Rightarrow> subject_row set" where
  "subjectsAttendedBy d uid =
     {s \<in> set (subjects d). \<exists>c\<in>set (classes d). \<exists>e\<in>set (enrollments d).
        c_subjectId c = s_id s \<and> e_classId e = c_id c \<and> e_studentId e = uid}"

definition departmentsTaughtBy :: "db \<Rightarrow> string \<Rightarrow> department_row set" where
  "departmentsTaughtBy d uid =
     {dp \<in> set (departments d). \<exists>s\<in>subjectsTaughtBy d uid. s_departmentId s = d_id dp}"

definition departmentsAttendedBy :: "db \<Rightarrow> string \<Rightarrow> department_row set" where
  "departmentsAttendedBy d uid =
     {dp \<in> set (departments d). \<exists>s\<in>subjectsAttendedBy d uid. s_departmentId s = d_id dp}"

definition teachersOfSubject :: "db \<Rightarrow> int \<Rightarrow> user_row set" where
  "teachersOfSubject d sid =
     {u \<in> set (user d). u_role u = ''teacher''
        \<and> (\<exists>c\<in>set (classes d). c_teacherId c = u_id u \<and> c_subjectId c = sid)}"

definition studentsOfSubject :: "db \<Rightarrow> int \<Rightarrow> user_row set" where
  "studentsOfSubject d sid =
     {u \<in> set (user d). u_role u = ''student''
        \<and> (\<exists>e\<in>set (enrollments d). \<exists>c\<in>set (classes d).
              e_studentId e = u_id u \<and> c_id c = e_classId e \<and> c_subjectId c = sid)}"

definition teachersOfClass :: "db \<Rightarrow> int \<Rightarrow> user_row set" where
  "teachersOfClass d cid =
     {u \<in> set (user d). u_role u = ''teacher''
        \<and> (\<exists>c\<in>set (classes d). c_teacherId c = u_id u \<and> c_id c = cid)}"

definition studentsOfClass :: "db \<Rightarrow> int \<Rightarrow> user_row set" where
  "studentsOfClass d cid =
     {u \<in> set (user d). u_role u = ''student''
        \<and> (\<exists>e\<in>set (enrollments d). e_studentId e = u_id u \<and> e_classId e = cid)}"

definition totalOf :: "response \<Rightarrow> jsnum option" where
  \<comment> \<open>\<^verbatim>\<open>pagination.total\<close> of a list response\<close>
  "totalOf r = (case body r of Page _ pg \<Rightarrow> Some (pg_total pg) | _ \<Rightarrow> None)"

definition pageItems :: "response \<Rightarrow> item list" where
  \<comment> \<open>\<^verbatim>\<open>data\<close> of a list response\<close>
  "pageItems r = (case body r of Page rows _ \<Rightarrow> rows | _ \<Rightarrow> [])"

definition pageSubjects :: "response \<Rightarrow> subject_row list" where
  \<comment> \<open>the subjects among the \<^verbatim>\<open>data\<close> of a list response, in order\<close>
  "pageSubjects r =
     concat (map (\<lambda>it. case it of SubjectItem s dp \<Rightarrow> [s] | _ \<Rightarrow> []) (pageItems r))"

subsection \<open>Example stores and requests\<close>

definition mkUser :: "string \<Rightarrow> string \<Rightarrow> int \<Rightarrow> user_row" where
  "mkUser uid role t =
     \<lparr>u_id = uid, u_name = uid, u_email = uid @ ''@school.test'', u_emailVerified = True,
      u_image = None, u_role = role, u_imageCldPubId = None, u_createdAt = t, u_updatedAt = t\<rparr>"

definition mkDepartment :: "int \<Rightarrow> string \<Rightarrow> int \<Rightarrow> department_row" where
  "mkDepartment i code t =
     \<lparr>d_id = i, d_code = code, d_name = code, d_description = None,
      d_createdAt = t, d_updatedAt = t\<rparr>"

definition mkSubject :: "int \<Rightarrow> int \<Rightarrow> string \<Rightarrow> int \<Rightarrow> subject_row" where
  "mkSubject i dep code t =
     \<lparr>s_id = i, s_departmentId = dep, s_code = code, s_name = code, s_description = None,
      s_createdAt = t, s_updatedAt = t\<rparr>"

definition mkClass :: "int \<Rightarrow> int \<Rightarrow> string \<Rightarrow> string \<Rightarrow> int \<Rightarrow> class_row" where
  "mkClass i sub teacher code t =
     \<lparr>c_id = i, c_subjectId = sub, c_teacherId = teacher, c_inviteCode = code, c_name = code,
      c_bannerCldPubId = None, c_bannerUrl = None, c_capacity = Some (JNum 30),
      c_description = None, c_schedules = [], c_status = None,
      c_createdAt = t, c_updatedAt = t\<rparr>"

definition school :: db where
  \<comment> \<open>one department with three subjects of two classes each, all taught by \<open>t1\<close>; the
      student \<open>s1\<close> is enrolled in both classes of the first subject; \<open>a1\<close> is an admin\<close>
  "school =
     \<lparr>user = [mkUser ''t1'' ''teacher'' 1, mkUser ''s1'' ''student'' 2, mkUser ''a1'' ''admin'' 3],
      departments = [mkDepartment 1 ''MATH'' 1],
      subjects = [mkSubject 1 1 ''ALG'' 1, mkSubject 2 1 ''GEO'' 2, mkSubject 3 1 ''CAL'' 3],
      classes = [mkClass 1 1 ''t1'' ''aaaaaa1'' 1, mkClass 2 1 ''t1'' ''aaaaaa2'' 2,
                 mkClass 3 2 ''t1'' ''aaaaaa3'' 3, mkClass 4 2 ''t1'' ''aaaaaa4'' 4,
                 mkClass 5 3 ''t1'' ''aaaaaa5'' 5, mkClass 6 3 ''t1'' ''aaaaaa6'' 6],
      enrollments = [\<lparr>e_studentId = ''s1'', e_classId = 1\<rparr>, \<lparr>e_studentId = ''s1'', e_classId = 2\<rparr>]\<rparr>"

definition noQuery :: query where
  "noQuery = (\<lambda>k. None)"

definition queryOf :: "(string \<times> string) list \<Rightarrow> query" where
  \<comment> \<open>a query string of plain parameters\<close>
  "queryOf kvs = (\<lambda>k. map_option QStr (map_of kvs k))"

definition adminQuery :: query where
  \<comment> \<open>\<^verbatim>\<open>?role=admin&page=3&limit=7\<close>\<close>
  "adminQuery = queryOf [(''role'', ''admin''), (''page'', ''3''), (''limit'', ''7'')]"

definition algebraBody :: reqbody where
  \<comment> \<open>\<^verbatim>\<open>{name: "Algebra I", teacherId: "t1", subjectId: 1, capacity: 30}\<close>\<close>
  "algebraBody =
     map_of [(''name'', JStr ''Algebra I''), (''teacherId'', JStr ''t1''),
             (''subjectId'', JNum 1), (''capacity'', JNum 30)]"

definition noRowInsert :: "'v \<Rightarrow> 'st \<Rightarrow> thrown + int list \<times> 'st" where
  \<comment> \<open>a store whose insert returns no row\<close>
  "noRowInsert v st = Inr ([], st)"

definition recordInsert :: "'v \<Rightarrow> 'v list \<Rightarrow> thrown + int list \<times> 'v list" where
  \<comment> \<open>a store that keeps, in order, the values it was handed\<close>
  "recordInsert v st = Inr ([int (length st) + 1], st @ [v])"

definition forgedBody :: reqbody where
  \<comment> \<open>\<open>algebraBody\<close> with \<^verbatim>\<open>inviteCode: "HACKED1"\<close> and \<^verbatim>\<open>schedules: [{day: "Mon"}]\<close>\<close>
  "forgedBody =
     algebraBody(''inviteCode'' \<mapsto> JStr ''HACKED1'',
                 ''schedules'' \<mapsto> JArr [JObj [(''day'', JStr ''Mon'')]])"

section \<open>Properties\<close>

subsection \<open>Rounding to a double\<close>

text \<open>
  \<open>floorLog2\<close> is the binary exponent of a positive rational.  \<open>toDouble\<close> leaves an integer
  below \<open>2^53\<close> as it is, never turns a number that is not negative into a negative one, and
  rounds a quotient \<open>t / l\<close> of a count below \<open>2^53\<close> and a limit below \<open>2^63\<close> so closely
  that its ceiling is the ceiling of the exact quotient.
\<close>

lemma pow2_powi: "pow2 e = 2 powi e"
  by (auto simp: pow2_def power_int_def field_simps)

lemma pow2_pos: "0 < pow2 e"
  by (simp add: pow2_powi)


lemma pow2_nat: "pow2 (int n) = 2 ^ n"
  by (simp add: pow2_def)

lemma pow2_mono: "a \<le> b \<Longrightarrow> pow2 a \<le> pow2 b"
  by (simp add: pow2_powi power_int_increasing)

lemma pow2_less_cancel: "pow2 a < pow2 b \<Longrightarrow> a < b"
  using pow2_mono[of b a] by (cases "a < b") auto

lemma bitLength_nonneg: "0 \<le> bitLength n"
proof (induction n rule: bitLength.induct)
  case (1 n)
  then show ?case by (subst bitLength.simps) simp
qed

lemma bitLength_pos: "0 < n \<Longrightarrow> 1 \<le> bitLength n"
  using bitLength_nonneg [of "n div 2"] by (subst bitLength.simps) simp

lemma bitLength_one: "bitLength 1 = 1"
  by (simp add: bitLength.simps)

lemma bitLength_bounds:
  "0 < n \<Longrightarrow> 2 ^ nat (bitLength n - 1) \<le> n \<and> n < 2 ^ nat (bitLength n)"
proof (induction n rule: bitLength.induct)
  case (1 n)
  show ?case
  proof (cases "n = 1")
    case True
    then show ?thesis by (simp add: bitLength_one)
  next
    case False
    with "1.prems" have h: "0 < n div 2" by auto
    with "1.IH" "1.prems" have ih: "2 ^ nat (bitLength (n div 2) - 1) \<le> n div 2"
      "n div 2 < 2 ^ nat (bitLength (n div 2))" by auto
    have b: "bitLength n = 1 + bitLength (n div 2)"
      using "1.prems" by (subst bitLength.simps) simp
    from h have p: "1 \<le> bitLength (n div 2)" by (rule bitLength_pos)
    then have e: "nat (bitLength (n div 2)) = Suc (nat (bitLength (n div 2) - 1))" by simp
    have "(2::int) ^ nat (bitLength n - 1) = 2 * 2 ^ nat (bitLength (n div 2) - 1)"
      unfolding b using e by simp
    also have "\<dots> \<le> 2 * (n div 2)" using ih(1) by simp
    also have "\<dots> \<le> n" by simp
    finally have lo: "2 ^ nat (bitLength n - 1) \<le> n" .
    have "n < 2 * (n div 2) + 2" by simp
    also have "\<dots> \<le> 2 * 2 ^ nat (bitLength (n div 2))" using ih(2) by simp
    also have "\<dots> = 2 ^ nat (bitLength n)" unfolding b using p by (simp add: nat_add_distrib)
    finally have hi: "n < 2 ^ nat (bitLength n)" .
    from lo hi show ?thesis by simp
  qed
qed

lemma pow2_diff: "pow2 (a - b) = pow2 a / pow2 b"
  by (simp add: pow2_powi power_int_diff)

lemma pow2_0: "pow2 0 = 1"
  by (simp add: pow2_def)

lemma pow2_strict_mono: "a < b \<Longrightarrow> pow2 a < pow2 b"
  by (simp add: pow2_powi power_int_strict_increasing)

lemma bitLength_bounds_rat:
  assumes "0 < n"
  shows "pow2 (bitLength n - 1) \<le> of_int n" and "of_int n < pow2 (bitLength n)"
proof -
  from assms have b: "2 ^ nat (bitLength n - 1) \<le> n" "n < 2 ^ nat (bitLength n)"
    using bitLength_bounds by auto
  from assms have p: "1 \<le> bitLength n" by (rule bitLength_pos)
  have "pow2 (bitLength n - 1) = of_int (2 ^ nat (bitLength n - 1))"
    using p by (simp add: pow2_def)
  also have "\<dots> \<le> of_int n" using b(1) by (simp only: of_int_le_iff)
  finally show "pow2 (bitLength n - 1) \<le> of_int n" .
  have "(of_int n :: rat) < of_int (2 ^ nat (bitLength n))"
    using b(2) by (simp only: of_int_less_iff)
  also have "\<dots> = pow2 (bitLength n)" using p by (simp add: pow2_def)
  finally show "of_int n < pow2 (bitLength n)" .
qed

lemma floorLog2_bounds:
  assumes "0 < q"
  shows "pow2 (floorLog2 q) \<le> q" and "q < pow2 (floorLog2 q + 1)"
proof -
  obtain a b where ab: "quotient_of q = (a, b)" by (cases "quotient_of q")
  then have b: "0 < b" by (rule quotient_of_denom_pos)
  from ab have q: "q = of_int a / of_int b" by (rule quotient_of_div)
  with assms b have a: "0 < a" by (simp add: zero_less_divide_iff)
  let ?e = "bitLength a - bitLength b"
  note A = bitLength_bounds_rat[OF a] and B = bitLength_bounds_rat[OF b]
  have bpos: "(0::rat) < of_int b" using b by simp
  have "q < pow2 (bitLength a) / of_int b"
    unfolding q using A(2) bpos by (simp add: divide_strict_right_mono)
  also have "\<dots> \<le> pow2 (bitLength a) / pow2 (bitLength b - 1)"
    using B(1) pow2_pos[of "bitLength a"] pow2_pos[of "bitLength b - 1"]
    by (intro divide_left_mono) (auto simp: less_imp_le)
  also have "\<dots> = pow2 (?e + 1)"
    by (simp add: pow2_diff[symmetric] algebra_simps)
  finally have hi: "q < pow2 (?e + 1)" .
  have "pow2 (?e - 1) = pow2 (bitLength a - 1) / pow2 (bitLength b)"
    by (simp add: pow2_diff[symmetric] algebra_simps)
  also have "\<dots> \<le> of_int a / pow2 (bitLength b)"
    using A(1) pow2_pos[of "bitLength b"] by (simp add: divide_right_mono)
  also have "\<dots> \<le> of_int a / of_int b"
    using B(2) a bpos by (intro divide_left_mono) (auto simp: less_imp_le)
  finally have lo: "pow2 (?e - 1) \<le> q" unfolding q .
  have f: "floorLog2 q = (if pow2 ?e \<le> q then ?e else ?e - 1)"
    by (simp add: floorLog2_def ab Let_def)
  show "pow2 (floorLog2 q) \<le> q" using lo by (simp add: f)
  show "q < pow2 (floorLog2 q + 1)" using hi by (auto simp: f not_le)
qed

lemma floorLog2_less: "0 < q \<Longrightarrow> q < pow2 n \<Longrightarrow> floorLog2 q < n"
  using floorLog2_bounds(1)[of q] pow2_less_cancel[of "floorLog2 q" n] by simp

lemma floorLog2_ge: "pow2 n \<le> q \<Longrightarrow> n \<le> floorLog2 q"
proof -
  assume a: "pow2 n \<le> q"
  with pow2_pos[of n] have "0 < q" by simp
  from floorLog2_bounds(2)[OF this] a have "pow2 n < pow2 (floorLog2 q + 1)" by simp
  then have "n < floorLog2 q + 1" by (rule pow2_less_cancel)
  then show ?thesis by simp
qed

lemma roundHalfEven_of_int: "roundHalfEven (of_int n) = n"
  by (simp add: roundHalfEven_def)

lemma roundHalfEven_ge: "of_int n \<le> x \<Longrightarrow> n \<le> roundHalfEven x"
proof -
  assume "of_int n \<le> x"
  then have "n \<le> \<lfloor>x\<rfloor>" by (simp add: le_floor_iff)
  then show ?thesis by (auto simp: roundHalfEven_def Let_def)
qed



text \<open>What \<open>toDouble\<close> returns for a positive number of the normal range.\<close>

lemma toDouble_pos:
  assumes "0 < q" and "floorLog2 q \<le> 52"
  shows "toDouble q =
           Fin (of_int (roundHalfEven (q / pow2 (max (floorLog2 q) (- 1022) - 52)))
                  * pow2 (max (floorLog2 q) (- 1022) - 52))"
  using assms by (auto simp: toDouble_def Let_def max_def)

lemma toDouble_of_int:
  assumes "0 \<le> n" and "n < 2 ^ 53"
  shows "toDouble (of_int n) = Fin (of_int n)"
proof (cases "n = 0")
  case True
  then show ?thesis by (simp add: toDouble_def)
next
  case False
  with assms have pos: "(0::rat) < of_int n" and one: "pow2 0 \<le> of_int n"
    by (simp_all add: pow2_0)
  have "(of_int n :: rat) < of_int (2 ^ 53)" using assms(2) by (simp only: of_int_less_iff)
  also have "\<dots> = pow2 53" by (simp add: pow2_def)
  finally have "floorLog2 (of_int n) < 53" using pos by (intro floorLog2_less)
  moreover from one have "0 \<le> floorLog2 (of_int n)" by (rule floorLog2_ge)
  ultimately have e: "0 \<le> floorLog2 (of_int n)" "floorLog2 (of_int n) \<le> 52" by simp_all
  let ?e = "floorLog2 (of_int n)"
  let ?k = "nat (52 - ?e)"
  have u: "pow2 (?e - 52) = 1 / of_int (2 ^ ?k)"
    using e by (auto simp: pow2_def nat_diff_distrib)
  have m: "of_int n / pow2 (?e - 52) = of_int (n * 2 ^ ?k)"
    by (simp add: u)
  have "toDouble (of_int n)
          = Fin (of_int (roundHalfEven (of_int n / pow2 (?e - 52))) * pow2 (?e - 52))"
    using toDouble_pos[OF pos e(2)] e(1) by (simp add: max_def)
  also have "\<dots> = Fin (of_int n)"
    unfolding m roundHalfEven_of_int by (simp add: u)
  finally show ?thesis .
qed

lemma toDouble_nonneg:
  assumes "0 \<le> q"
  shows "toDouble q = PosInf \<or> (\<exists>v. toDouble q = Fin v \<and> 0 \<le> v)"
proof (cases "q = 0")
  case True
  then show ?thesis by (simp add: toDouble_def)
next
  case False
  with assms have q: "0 < q" by simp
  let ?u = "pow2 (max (floorLog2 q) (- 1022) - 52)"
  have "0 \<le> q / ?u" using q pow2_pos[of "max (floorLog2 q) (- 1022) - 52"] by simp
  then have "(of_int 0 :: rat) \<le> q / ?u" by simp
  then have "0 \<le> roundHalfEven (q / ?u)" by (rule roundHalfEven_ge)
  then have "0 \<le> of_int (roundHalfEven (q / ?u)) * ?u"
    using pow2_pos[of "max (floorLog2 q) (- 1022) - 52"] by simp
  with q show ?thesis by (auto simp: toDouble_def Let_def)
qed


subsection \<open>Exact cases of the arithmetic\<close>

lemma js_sub_one:
  assumes "1 \<le> p" and "p \<le> 2 ^ 53"
  shows "js_sub (Fin (of_int p)) (Fin 1) = Fin (of_int (p - 1))"
proof -
  have "toDouble (of_int (p - 1)) = Fin (of_int (p - 1))"
    using assms by (intro toDouble_of_int) simp_all
  then show ?thesis by simp
qed

lemma js_mul_int:
  assumes "0 \<le> a * b" and "a * b < 2 ^ 53"
  shows "js_mul (Fin (of_int a)) (Fin (of_int b)) = Fin (of_int (a * b))"
proof -
  have "toDouble (of_int (a * b)) = Fin (of_int (a * b))"
    using assms by (intro toDouble_of_int) simp_all
  then show ?thesis by simp
qed


subsection \<open>Page, limit and offset\<close>

lemma Math_max_one:
  "Math_max (Fin 1) x =
     (case x of NaN \<Rightarrow> NaN | NegInf \<Rightarrow> Fin 1 | Fin n \<Rightarrow> Fin (max 1 n) | PosInf \<Rightarrow> PosInf)"
  by (cases x) (auto simp: max_def)

lemma Math_max_one_ge: "Math_max (Fin 1) x \<noteq> NaN \<Longrightarrow> js_le (Fin 1) (Math_max (Fin 1) x)"
  by (cases x) (auto simp: Math_max_one)

lemma Math_max_one_Fin: "Math_max (Fin 1) x = Fin v \<Longrightarrow> 1 \<le> v"
  by (cases x) (auto simp: Math_max_one split: if_splits)

lemma Math_max_one_cases:
  "Math_max (Fin 1) x = NaN \<or> Math_max (Fin 1) x = PosInf
     \<or> (\<exists>p. Math_max (Fin 1) x = Fin p \<and> 1 \<le> p)"
  by (cases x) (simp_all add: Math_max_one)

lemma currentPage_cases:
  obtains "currentPage q = NaN" | "currentPage q = PosInf"
  | p where "currentPage q = Fin p" and "1 \<le> p"
  using Math_max_one_cases[of "unaryPlus (Fin 1) (q ''page'')"]
  unfolding currentPage_def by blast

lemma limitPerPage_cases:
  obtains "limitPerPage q = NaN" | "limitPerPage q = PosInf"
  | l where "limitPerPage q = Fin l" and "1 \<le> l"
  using Math_max_one_cases[of "unaryPlus (Fin 10) (q ''limit'')"]
  unfolding limitPerPage_def by blast

lemma js_sub_one_nonneg:
  assumes "1 \<le> p"
  shows "js_sub (Fin p) (Fin 1) = PosInf \<or> (\<exists>a. js_sub (Fin p) (Fin 1) = Fin a \<and> 0 \<le> a)"
  using toDouble_nonneg[of "p - 1"] assms by simp

lemma js_mul_nonneg:
  assumes "0 \<le> a" and "1 \<le> l"
  shows "js_mul (Fin a) (Fin l) = PosInf \<or> (\<exists>v. js_mul (Fin a) (Fin l) = Fin v \<and> 0 \<le> v)"
  using toDouble_nonneg[of "a * l"] assms by simp

lemma offset_nonneg: "offset q = NaN \<or> js_le (Fin 0) (offset q)"
proof (cases q rule: currentPage_cases)
  case 1
  then show ?thesis by (simp add: offset_def)
next
  case 2
  then show ?thesis
    by (cases q rule: limitPerPage_cases) (auto simp: offset_def js_sgn_def Let_def)
next
  case (3 p)
  from js_sub_one_nonneg[OF 3(2)] show ?thesis
  proof
    assume "js_sub (Fin p) (Fin 1) = PosInf"
    with 3 show ?thesis
      by (cases q rule: limitPerPage_cases) (auto simp: offset_def js_sgn_def Let_def)
  next
    assume "\<exists>a. js_sub (Fin p) (Fin 1) = Fin a \<and> 0 \<le> a"
    then obtain a where a: "js_sub (Fin p) (Fin 1) = Fin a" "0 \<le> a" by blast
    show ?thesis
    proof (cases q rule: limitPerPage_cases)
      case 1
      with 3 a show ?thesis by (simp add: offset_def)
    next
      case 2
      with 3 a show ?thesis by (auto simp: offset_def js_sgn_def Let_def)
    next
      case (3 l)
      with js_mul_nonneg[OF a(2) 3(2)] \<open>currentPage q = Fin p\<close> a show ?thesis
        by (auto simp: offset_def)
    qed
  qed
qed

lemma offset_integers:
  assumes "currentPage q = Fin (of_int p)" and "limitPerPage q = Fin (of_int l)"
    and "p * l < 2 ^ 53"
  shows "offset q = Fin (of_int ((p - 1) * l))" and "1 \<le> p" and "1 \<le> l"
    and "0 \<le> (p - 1) * l" and "(p - 1) * l < 2 ^ 53" and "l < 2 ^ 53"
proof -
  from assms(1) have "(1::rat) \<le> of_int p" by (auto simp: currentPage_def dest: Math_max_one_Fin)
  then show p: "1 \<le> p" by simp
  from assms(2) have "(1::rat) \<le> of_int l" by (auto simp: limitPerPage_def dest: Math_max_one_Fin)
  then show l: "1 \<le> l" by simp
  from p l show nn: "0 \<le> (p - 1) * l" by simp
  have "(p - 1) * l \<le> p * l" using l by (simp add: mult_right_mono)
  with assms(3) show lt: "(p - 1) * l < 2 ^ 53" by simp
  have "l \<le> p * l" using p l by (simp add: mult_le_cancel_right1)
  with assms(3) show "l < 2 ^ 53" by simp
  have "p - 1 \<le> (p - 1) * l" using p l by (simp add: mult_le_cancel_left1)
  with lt have "p \<le> 2 ^ 53" by simp
  with p have "js_sub (Fin (of_int p)) (Fin 1) = Fin (of_int (p - 1))" by (rule js_sub_one)
  with assms(1,2) js_mul_int[OF nn lt] show "offset q = Fin (of_int ((p - 1) * l))"
    by (simp add: offset_def)
qed

subsection \<open>The window\<close>

lemma bigintClause_of_int:
  "0 \<le> n \<Longrightarrow> n < 2 ^ 63 \<Longrightarrow> bigintClause (Fin (of_int n)) = Rows (nat n)"
proof -
  assume a: "0 \<le> n" "n < 2 ^ 63"
  then have "(of_int n :: rat) < of_int (2 ^ 63)" by (simp only: of_int_less_iff)
  with a(1) show ?thesis by (simp add: bigintClause_def)
qed



lemma limitOffset_integers:
  assumes "currentPage q = Fin (of_int p)" and "limitPerPage q = Fin (of_int l)"
    and "p * l < 2 ^ 53"
  shows "limitOffset (limitPerPage q) (offset q) rows
           = Inr (take (nat l) (drop (nat ((p - 1) * l)) rows))"
    and "accepted q"
proof -
  note o = offset_integers[OF assms]
  have l63: "l < 2 ^ 63" using o(6) by simp
  have k63: "(p - 1) * l < 2 ^ 63" using o(5) by simp
  have lc: "limitClause (limitPerPage q) = Rows (nat l)"
    using o(3) l63 by (simp add: limitClause_def assms(2) bigintClause_of_int)
  have oc: "offsetClause (offset q)
              = (if (p - 1) * l = 0 then Omitted else Rows (nat ((p - 1) * l)))"
    using o(4) k63 unfolding o(1) offsetClause_def
    by (simp add: bigintClause_of_int del: of_int_mult)
  show "limitOffset (limitPerPage q) (offset q) rows
           = Inr (take (nat l) (drop (nat ((p - 1) * l)) rows))"
    unfolding limitOffset_def lc oc by (simp add: Let_def)
  show "accepted q" unfolding accepted_def lc oc by simp
qed

lemma limitOffset_rejected:
  "\<not> accepted q \<Longrightarrow> limitOffset (limitPerPage q) (offset q) rows = Inl StoreFailure"
  by (auto simp: accepted_def limitOffset_def)

lemma limitOffset_accepted:
  "accepted q \<Longrightarrow> \<exists>xs. limitOffset (limitPerPage q) (offset q) rows = Inr xs"
  by (auto simp: accepted_def limitOffset_def Let_def)

lemma limitOffset_Nil:
  "limitOffset (limitPerPage q) (offset q) [] = (if accepted q then Inr [] else Inl StoreFailure)"
  by (auto simp: accepted_def limitOffset_def Let_def split: clause.splits)


subsection \<open>Looking up the first row\<close>

lemma firstRow_None: "firstRow xs = None \<longleftrightarrow> xs = []"
  by (simp add: firstRow_def split: list.splits)

lemma firstRow_filter_Some:
  "firstRow (filter P xs) = Some x \<Longrightarrow> x \<in> set xs \<and> P x"
proof -
  assume "firstRow (filter P xs) = Some x"
  then obtain r where "filter P xs = x # r"
    by (auto simp: firstRow_def split: list.splits)
  then have "x \<in> set (filter P xs)" by simp
  then show ?thesis by simp
qed

lemma firstRow_filter_None:
  "firstRow (filter P xs) = None \<longleftrightarrow> (\<forall>x\<in>set xs. \<not> P x)"
  by (simp add: firstRow_None filter_empty_conv)

lemma filter_key_distinct:
  "distinct (map k xs) \<Longrightarrow> x \<in> set xs \<Longrightarrow> filter (\<lambda>y. k y = k x) xs = [x]"
proof (induction xs)
  case Nil
  then show ?case by simp
next
  case (Cons a as)
  show ?case
  proof (cases "a = x")
    case True
    with Cons.prems have "\<forall>y\<in>set as. k y \<noteq> k x" by (auto simp: image_iff)
    then have "filter (\<lambda>y. k y = k x) as = []" by (simp add: filter_empty_conv)
    with True show ?thesis by simp
  next
    case False
    with Cons.prems have "x \<in> set as" "k a \<noteq> k x" by (auto simp: image_iff)
    with Cons show ?thesis by simp
  qed
qed

lemma userRecord_None: "userRecord d userId = None \<longleftrightarrow> (\<forall>u\<in>set (user d). u_id u \<noteq> userId)"
  by (simp add: userRecord_def firstRow_filter_None)

lemma userRecord_Some: "userRecord d userId = Some u \<Longrightarrow> u \<in> set (user d) \<and> u_id u = userId"
  unfolding userRecord_def by (rule firstRow_filter_Some)

text \<open>With the primary key on \<^verbatim>\<open>user.id\<close>, the record found is the stored user.\<close>

lemma userRecord_distinct:
  "distinct (map u_id (user d)) \<Longrightarrow> u \<in> set (user d) \<Longrightarrow> userRecord d (u_id u) = Some u"
  by (simp add: userRecord_def filter_key_distinct firstRow_def)

lemma status_listResponse: "status (listResponse rows q t) = 200"
  by (simp add: listResponse_def)

lemma validRole_None:
  "validRole r = None \<longleftrightarrow> (r \<noteq> Some (QStr ''teacher'') \<and> r \<noteq> Some (QStr ''student''))"
  by (auto simp: validRole_def split: option.splits qval.splits)

subsection \<open>The \<^verbatim>\<open>try\<close> block of a list handler\<close>

lemma tryCatch_Inr: "tryCatch msg (Inr r) = r"
  by (simp add: tryCatch_def)

lemma tryCatch_Inl: "tryCatch msg (Inl e) = errorResponse 500 msg"
  by (simp add: tryCatch_def)

lemma awaited_Inr: "awaited (Inr x) rest = rest x"
  by (simp add: awaited_def)

lemma awaited_Inl: "awaited (Inl e) rest = Inl e"
  by (simp add: awaited_def)

lemmas try_simps = tryCatch_Inr tryCatch_Inl awaited_Inr awaited_Inl

text \<open>
  The two queries of a list handler end in one of two ways: the engine rejects the window and
  the \<^verbatim>\<open>catch\<close> block answers 500, or the envelope is built around the rows of the window.
\<close>

lemma paged_rejected:
  "\<not> accepted q \<Longrightarrow>
     tryCatch msg (awaited (limitOffset (limitPerPage q) (offset q) rows) rest)
       = errorResponse 500 msg"
  by (simp add: limitOffset_rejected try_simps)

lemma paged_accepted:
  assumes "accepted q"
  obtains xs where "limitOffset (limitPerPage q) (offset q) rows = Inr xs"
    and "tryCatch msg (awaited (limitOffset (limitPerPage q) (offset q) rows)
            (\<lambda>xs. Inr (f xs))) = f xs"
proof -
  from limitOffset_accepted[OF assms] obtain xs
    where "limitOffset (limitPerPage q) (offset q) rows = Inr xs" by blast
  then show ?thesis by (intro that[of xs]) (simp_all add: try_simps)
qed

lemma paged_empty:
  "tryCatch msg (awaited (limitOffset (limitPerPage q) (offset q) [])
      (\<lambda>xs. Inr (listResponse (map g xs) q t)))
     = (if accepted q then listResponse [] q t else errorResponse 500 msg)"
  by (simp add: limitOffset_Nil try_simps)

lemma paged_status:
  "status (tryCatch msg (awaited (limitOffset (limitPerPage q) (offset q) rows)
      (\<lambda>xs. Inr (listResponse (g xs) q t)))) = (if accepted q then 200 else 500)"
proof (cases "accepted q")
  case True
  then obtain xs where "tryCatch msg (awaited (limitOffset (limitPerPage q) (offset q) rows)
      (\<lambda>xs. Inr (listResponse (g xs) q t))) = listResponse (g xs) q t"
    by (rule paged_accepted)
  with True show ?thesis by (simp add: status_listResponse)
next
  case False
  then show ?thesis by (simp add: paged_rejected errorResponse_def)
qed


subsection \<open>Creation\<close>

lemma created_no_row:
  "created msg (Inr ([], st')) st = (errorResponse 500 msg, st')"
  by (simp add: created_def firstRow_def)

text \<open>When the store returns a row, the answer is 201 with the id of the row.\<close>

lemma created_row:
  "created msg (Inr (row # rows, st')) st = (\<lparr>status = 201, body = Created row\<rparr>, st')"
  by (simp add: created_def firstRow_def)

lemma created_raised:
  "created msg (Inl e) st = (errorResponse 500 msg, st)"
  by (simp add: created_def)

text \<open>
  Claim C8.  When the insert of \<^verbatim>\<open>POST /subjects\<close> or of \<^verbatim>\<open>POST /classes\<close> returns no row,
  the handler answers with status 500 and an \<^verbatim>\<open>{error: string}\<close> body; in particular it does
  not answer 201.  \<^verbatim>\<open>throw Error\<close> raises the constructor, and the \<^verbatim>\<open>catch\<close> block receives
  it like any other raised value.
\<close>

theorem insert_without_row_answers_500:
  "(insertS (subjectValues b) st = Inr ([], st')
      \<longrightarrow> fst (postSubjects insertS b st)
            = \<lparr>status = 500, body = Error ''Failed to create subject''\<rparr>)
   \<and> (insertC (classValues b rnd) ct = Inr ([], ct')
      \<longrightarrow> fst (postClasses insertC b rnd ct)
            = \<lparr>status = 500, body = Error ''Failed to create class''\<rparr>)"
  by (simp add: postSubjects_def postClasses_def created_no_row errorResponse_def)

theorem insert_without_row_answers_500_witness:
  "noRowInsert (subjectValues algebraBody) school = Inr ([], school)
   \<and> fst (postSubjects noRowInsert algebraBody school)
       = \<lparr>status = 500, body = Error ''Failed to create subject''\<rparr>
   \<and> noRowInsert (classValues algebraBody ''0.4fzyo82mvyr'') school = Inr ([], school)
   \<and> fst (postClasses noRowInsert algebraBody ''0.4fzyo82mvyr'' school)
       = \<lparr>status = 500, body = Error ''Failed to create class''\<rparr>"
  using insert_without_row_answers_500
          [where insertS = noRowInsert and insertC = noRowInsert and b = algebraBody
             and st = school and st' = school and ct = school and ct' = school
             and rnd = "''0.4fzyo82mvyr''"]
  by (simp add: noRowInsert_def)

text \<open>What \<^verbatim>\<open>POST /classes\<close> makes of the store's insert, for the store of the repository.\<close>

lemma insertClass_row:
  assumes "insertClass now v d = Inr (ids, d')"
  shows "\<exists>row. classes d' = classes d @ [row] \<and> ids = [c_id row]
           \<and> c_inviteCode row = cv_inviteCode v \<and> c_schedules row = cv_schedules v"
  using assms
  by (auto simp: insertClass_def Let_def
        split: option.splits json.splits if_splits prod.splits)

lemma postClasses_created:
  assumes "fst (postClasses dbInsert b rnd st) = \<lparr>status = 201, body = Created i\<rparr>"
  obtains rows st' where "dbInsert (classValues b rnd) st = Inr (i # rows, st')"
    and "snd (postClasses dbInsert b rnd st) = st'"
proof (cases "dbInsert (classValues b rnd) st")
  case (Inl e)
  with assms show ?thesis by (simp add: postClasses_def created_raised errorResponse_def)
next
  case (Inr p)
  obtain ids st' where p: "p = (ids, st')" by (cases p)
  show ?thesis
  proof (cases ids)
    case Nil
    with Inr p assms show ?thesis by (simp add: postClasses_def created_no_row errorResponse_def)
  next
    case (Cons j rows)
    with Inr p assms have "j = i" by (simp add: postClasses_def created_row)
    with Inr p Cons show ?thesis by (intro that[of rows st']) (simp_all add: postClasses_def created_row)
  qed
qed

text \<open>
  Claim C10.  \<^verbatim>\<open>POST /classes\<close> does not read \<^verbatim>\<open>inviteCode\<close> or \<^verbatim>\<open>schedules\<close> from the
  request body.  Whatever the body holds under these two names (a value, or nothing), and
  whatever the store: the outcome of the request is the one of the request without them.  A
  store that records what it is handed is handed one value, whose invite code is the one cut
  from the server's random string and whose schedule list is empty, the named fields being
  those of the body.  With the store of the repository, a request answered with 201 has
  added one class, with the id of the answer, that invite code and no schedule.
\<close>

theorem post_classes_ignores_invite_code_and_schedules:
  "postClasses dbInsert (b(''inviteCode'' := x, ''schedules'' := y)) rnd st
       = postClasses dbInsert b rnd st
   \<and> fst (postClasses recordInsert (b(''inviteCode'' := x, ''schedules'' := y)) rnd vs)
       = \<lparr>status = 201, body = Created (int (length vs) + 1)\<rparr>
   \<and> (\<exists>v. snd (postClasses recordInsert (b(''inviteCode'' := x, ''schedules'' := y)) rnd vs)
             = vs @ [v]
          \<and> cv_inviteCode v = substring 2 9 rnd \<and> cv_schedules v = []
          \<and> cv_subjectId v = b ''subjectId'' \<and> cv_teacherId v = b ''teacherId''
          \<and> cv_name v = b ''name'')
   \<and> (\<forall>i. fst (postClasses (insertClass now) (b(''inviteCode'' := x, ''schedules'' := y)) rnd d)
             = \<lparr>status = 201, body = Created i\<rparr>
          \<longrightarrow> (\<exists>row. classes (snd (postClasses (insertClass now)
                                      (b(''inviteCode'' := x, ''schedules'' := y)) rnd d))
                          = classes d @ [row]
                      \<and> c_id row = i \<and> c_inviteCode row = substring 2 9 rnd
                      \<and> c_schedules row = []))"
proof (intro conjI allI impI)
  let ?b = "b(''inviteCode'' := x, ''schedules'' := y)"
  show "postClasses dbInsert ?b rnd st = postClasses dbInsert b rnd st"
    by (simp add: classValues_def postClasses_def)
  show "fst (postClasses recordInsert ?b rnd vs)
          = \<lparr>status = 201, body = Created (int (length vs) + 1)\<rparr>"
    by (simp add: postClasses_def recordInsert_def created_row)
  show "\<exists>v. snd (postClasses recordInsert ?b rnd vs) = vs @ [v]
          \<and> cv_inviteCode v = substring 2 9 rnd \<and> cv_schedules v = []
          \<and> cv_subjectId v = b ''subjectId'' \<and> cv_teacherId v = b ''teacherId''
          \<and> cv_name v = b ''name''"
    by (simp add: postClasses_def recordInsert_def created_row classValues_def
          del: substring.simps)
  fix i
  assume "fst (postClasses (insertClass now) ?b rnd d) = \<lparr>status = 201, body = Created i\<rparr>"
  then obtain rows d' where i: "insertClass now (classValues ?b rnd) d = Inr (i # rows, d')"
    and s: "snd (postClasses (insertClass now) ?b rnd d) = d'"
    by (rule postClasses_created)
  from insertClass_row[OF i] obtain row where "classes d' = classes d @ [row]"
    "i # rows = [c_id row]" "c_inviteCode row = cv_inviteCode (classValues ?b rnd)"
    "c_schedules row = cv_schedules (classValues ?b rnd)"
    by blast
  then show "\<exists>row. classes (snd (postClasses (insertClass now) ?b rnd d)) = classes d @ [row]
                      \<and> c_id row = i \<and> c_inviteCode row = substring 2 9 rnd
                      \<and> c_schedules row = []"
    unfolding s by (intro exI[of _ row]) (simp add: classValues_def del: substring.simps)
qed

theorem post_classes_ignores_invite_code_and_schedules_witness:
  "forgedBody = algebraBody(''inviteCode'' := Some (JStr ''HACKED1''),
                            ''schedules'' := Some (JArr [JObj [(''day'', JStr ''Mon'')]]))
   \<and> fst (postClasses (insertClass 9) forgedBody ''0.4fzyo82mvyr'' school)
       = \<lparr>status = 201, body = Created 7\<rparr>
   \<and> (\<exists>row. classes (snd (postClasses (insertClass 9) forgedBody ''0.4fzyo82mvyr'' school))
               = classes school @ [row]
            \<and> c_id row = 7 \<and> c_inviteCode row = ''4fzyo82'' \<and> c_schedules row = [])
   \<and> postClasses (insertClass 9) forgedBody ''0.4fzyo82mvyr'' school
       = postClasses (insertClass 9) algebraBody ''0.4fzyo82mvyr'' school"
proof -
  have 1: "forgedBody = algebraBody(''inviteCode'' := Some (JStr ''HACKED1''),
                            ''schedules'' := Some (JArr [JObj [(''day'', JStr ''Mon'')]]))"
    by (simp add: forgedBody_def)
  have 2: "fst (postClasses (insertClass 9) forgedBody ''0.4fzyo82mvyr'' school)
       = \<lparr>status = 201, body = Created 7\<rparr>"
    by code_simp
  have 3: "substring 2 9 ''0.4fzyo82mvyr'' = ''4fzyo82''" by code_simp
  note t = post_classes_ignores_invite_code_and_schedules
         [where b = algebraBody and x = "Some (JStr ''HACKED1'')"
            and y = "Some (JArr [JObj [(''day'', JStr ''Mon'')]])"
            and rnd = "''0.4fzyo82mvyr''" and now = 9 and d = school
            and dbInsert = "insertClass 9" and st = school and vs = "[]",
          unfolded 1[symmetric] 3]
  from t have 4: "postClasses (insertClass 9) forgedBody ''0.4fzyo82mvyr'' school
       = postClasses (insertClass 9) algebraBody ''0.4fzyo82mvyr'' school"
    by (rule conjunct1)
  from t 2 have 5: "\<exists>row. classes (snd (postClasses (insertClass 9) forgedBody ''0.4fzyo82mvyr'' school))
               = classes school @ [row]
            \<and> c_id row = 7 \<and> c_inviteCode row = ''4fzyo82'' \<and> c_schedules row = []"
    by blast
  from 1 2 4 5 show ?thesis by (intro conjI)
qed

subsection \<open>Roles and ids on the nested routes\<close>

text \<open>
  Claim C4.  On \<^verbatim>\<open>GET /subjects/:id/users\<close> and \<^verbatim>\<open>GET /classes/:id/users\<close> a \<^verbatim>\<open>role\<close>
  parameter that is not exactly the string \<^verbatim>\<open>teacher\<close> or \<^verbatim>\<open>student\<close> (another string,
  an array, an object, or none) gives status 400, whatever the id.  On
  \<^verbatim>\<open>GET /users/:id/departments\<close> and \<^verbatim>\<open>GET /users/:id/subjects\<close> a user that exists and whose
  stored role is neither of the two gives status 200 with the fixed empty page, whatever page
  and limit were asked for.
\<close>

theorem role_handling_on_nested_routes:
  "(q ''role'' \<noteq> Some (QStr ''teacher'') \<and> q ''role'' \<noteq> Some (QStr ''student'')
      \<longrightarrow> (\<exists>msg. getSubjectUsers d pid q = \<lparr>status = 400, body = Error msg\<rparr>)
        \<and> (\<exists>msg. getClassUsers d pid q = \<lparr>status = 400, body = Error msg\<rparr>))
   \<and> (userRecord d userId = Some u \<and> u_role u \<noteq> ''teacher'' \<and> u_role u \<noteq> ''student''
      \<longrightarrow> getUserDepartments d userId q
            = \<lparr>status = 200,
               body = Page [] \<lparr>pg_page = Fin 1, pg_limit = Fin 0, pg_total = Fin 0,
                                pg_totalPages = Fin 0\<rparr>\<rparr>
        \<and> getUserSubjects d userId q
            = \<lparr>status = 200,
               body = Page [] \<lparr>pg_page = Fin 1, pg_limit = Fin 0, pg_total = Fin 0,
                                pg_totalPages = Fin 0\<rparr>\<rparr>)"
proof (intro conjI impI)
  assume r: "q ''role'' \<noteq> Some (QStr ''teacher'') \<and> q ''role'' \<noteq> Some (QStr ''student'')"
  then have v: "validRole (q ''role'') = None" by (simp add: validRole_None)
  show "\<exists>msg. getSubjectUsers d pid q = \<lparr>status = 400, body = Error msg\<rparr>"
    by (simp add: getSubjectUsers_def Let_def v errorResponse_def try_simps)
  show "\<exists>msg. getClassUsers d pid q = \<lparr>status = 400, body = Error msg\<rparr>"
    by (simp add: getClassUsers_def Let_def v errorResponse_def try_simps)
next
  assume u: "userRecord d userId = Some u \<and> u_role u \<noteq> ''teacher'' \<and> u_role u \<noteq> ''student''"
  then show "getUserDepartments d userId q
      = \<lparr>status = 200,
         body = Page [] \<lparr>pg_page = Fin 1, pg_limit = Fin 0, pg_total = Fin 0,
                          pg_totalPages = Fin 0\<rparr>\<rparr>"
    by (simp add: getUserDepartments_def emptyPage_def try_simps)
  from u show "getUserSubjects d userId q
      = \<lparr>status = 200,
         body = Page [] \<lparr>pg_page = Fin 1, pg_limit = Fin 0, pg_total = Fin 0,
                          pg_totalPages = Fin 0\<rparr>\<rparr>"
    by (simp add: getUserSubjects_def emptyPage_def try_simps)
qed

theorem role_handling_on_nested_routes_witness:
  "adminQuery ''role'' \<noteq> Some (QStr ''teacher'')
   \<and> adminQuery ''role'' \<noteq> Some (QStr ''student'')
   \<and> getSubjectUsers school ''1'' adminQuery = \<lparr>status = 400, body = Error ''Invalid role''\<rparr>
   \<and> getClassUsers school ''1'' adminQuery = \<lparr>status = 400, body = Error ''Invalid role''\<rparr>
   \<and> userRecord school ''a1'' = Some (mkUser ''a1'' ''admin'' 3)
   \<and> u_role (mkUser ''a1'' ''admin'' 3) = ''admin''
   \<and> getUserDepartments school ''a1'' adminQuery
        = \<lparr>status = 200,
           body = Page [] \<lparr>pg_page = Fin 1, pg_limit = Fin 0, pg_total = Fin 0,
                            pg_totalPages = Fin 0\<rparr>\<rparr>
   \<and> getUserSubjects school ''a1'' adminQuery
        = \<lparr>status = 200,
           body = Page [] \<lparr>pg_page = Fin 1, pg_limit = Fin 0, pg_total = Fin 0,
                            pg_totalPages = Fin 0\<rparr>\<rparr>"
proof -
  have r: "adminQuery ''role'' \<noteq> Some (QStr ''teacher'')
           \<and> adminQuery ''role'' \<noteq> Some (QStr ''student'')"
    by (simp add: adminQuery_def queryOf_def)
  have u: "userRecord school ''a1'' = Some (mkUser ''a1'' ''admin'' 3)"
    by code_simp
  have a: "u_role (mkUser ''a1'' ''admin'' 3) = ''admin''"
    by (simp add: mkUser_def)
  have s: "getSubjectUsers school ''1'' adminQuery
             = \<lparr>status = 400, body = Error ''Invalid role''\<rparr>"
    by code_simp
  have c: "getClassUsers school ''1'' adminQuery
             = \<lparr>status = 400, body = Error ''Invalid role''\<rparr>"
    by code_simp
  from role_handling_on_nested_routes
         [where q = adminQuery and d = school and userId = "''a1''"
            and u = "mkUser ''a1'' ''admin'' 3" and pid = "''1''"] r u a s c
  show ?thesis by simp
qed

text \<open>
  Claim C9.  The three user routes take the \<^verbatim>\<open>:id\<close> of the path as it is: it is compared, as
  a string, with the stored ids.  An id that no user has gives status 404, an id that a user
  has gives that user, and no id makes any of the three routes answer 400.
\<close>

theorem user_routes_do_not_validate_the_id:
  "((\<forall>u\<in>set (user d). u_id u \<noteq> userId)
      \<longrightarrow> getUser d userId = \<lparr>status = 404, body = Error ''User not found''\<rparr>
        \<and> getUserDepartments d userId q
            = \<lparr>status = 404, body = Error ''User not found''\<rparr>
        \<and> getUserSubjects d userId q
            = \<lparr>status = 404, body = Error ''User not found''\<rparr>)
   \<and> (\<forall>u. userRecord d userId = Some u
         \<longrightarrow> getUser d userId = \<lparr>status = 200, body = UserData u\<rparr>)
   \<and> status (getUser d userId) \<noteq> 400
   \<and> status (getUserDepartments d userId q) \<noteq> 400
   \<and> status (getUserSubjects d userId q) \<noteq> 400"
proof (intro conjI impI allI)
  assume "\<forall>u\<in>set (user d). u_id u \<noteq> userId"
  then have n: "userRecord d userId = None" by (simp add: userRecord_None)
  show "getUser d userId = \<lparr>status = 404, body = Error ''User not found''\<rparr>"
    by (simp add: getUser_def n errorResponse_def)
  show "getUserDepartments d userId q = \<lparr>status = 404, body = Error ''User not found''\<rparr>"
    by (simp add: getUserDepartments_def n errorResponse_def try_simps)
  show "getUserSubjects d userId q = \<lparr>status = 404, body = Error ''User not found''\<rparr>"
    by (simp add: getUserSubjects_def n errorResponse_def try_simps)
next
  fix u assume "userRecord d userId = Some u"
  then show "getUser d userId = \<lparr>status = 200, body = UserData u\<rparr>"
    by (simp add: getUser_def)
next
  show "status (getUser d userId) \<noteq> 400"
    by (simp add: getUser_def errorResponse_def split: option.splits)
next
  show "status (getUserDepartments d userId q) \<noteq> 400"
    by (simp add: getUserDepartments_def errorResponse_def emptyPage_def Let_def
          try_simps paged_status split: option.splits)
next
  show "status (getUserSubjects d userId q) \<noteq> 400"
    by (simp add: getUserSubjects_def errorResponse_def emptyPage_def Let_def
          try_simps paged_status split: option.splits)
qed

theorem user_routes_do_not_validate_the_id_witness:
  "list_all (\<lambda>u. u_id u \<noteq> ''12abc'') (user school)
   \<and> getUser school ''12abc'' = \<lparr>status = 404, body = Error ''User not found''\<rparr>
   \<and> getUserDepartments school ''12abc'' noQuery
       = \<lparr>status = 404, body = Error ''User not found''\<rparr>
   \<and> getUserSubjects school ''12abc'' noQuery
       = \<lparr>status = 404, body = Error ''User not found''\<rparr>
   \<and> userRecord school ''t1'' = Some (mkUser ''t1'' ''teacher'' 1)
   \<and> getUser school ''t1'' = \<lparr>status = 200, body = UserData (mkUser ''t1'' ''teacher'' 1)\<rparr>"
proof -
  have n: "list_all (\<lambda>u. u_id u \<noteq> ''12abc'') (user school)"
    by code_simp
  then have n': "\<forall>u\<in>set (user school). u_id u \<noteq> ''12abc''"
    by (simp add: list_all_iff)
  have t: "userRecord school ''t1'' = Some (mkUser ''t1'' ''teacher'' 1)"
    by code_simp
  from user_routes_do_not_validate_the_id [of school "''12abc''" noQuery] n'
  have 1: "getUser school ''12abc'' = \<lparr>status = 404, body = Error ''User not found''\<rparr>
        \<and> getUserDepartments school ''12abc'' noQuery
            = \<lparr>status = 404, body = Error ''User not found''\<rparr>
        \<and> getUserSubjects school ''12abc'' noQuery
            = \<lparr>status = 404, body = Error ''User not found''\<rparr>"
    by blast
  from user_routes_do_not_validate_the_id [of school "''t1''" noQuery] t
  have 2: "getUser school ''t1'' = \<lparr>status = 200, body = UserData (mkUser ''t1'' ''teacher'' 1)\<rparr>"
    by blast
  from n t 1 2 show ?thesis by simp
qed

subsection \<open>Page, limit and offset of a request\<close>

text \<open>
  Claim C6, as the code has it.  \<^verbatim>\<open>page\<close> and \<^verbatim>\<open>limit\<close> are coerced to numbers, not to
  integers.  An absent value gives 1 and 10.  A value that coerces to a finite number \<open>n\<close>
  gives \<open>max 1 n\<close>, so a requested 0 or a negative value gives 1 and a fraction above 1 stays
  a fraction; a value that coerces to \<open>NaN\<close> gives \<open>NaN\<close>.  Every effective value other than
  \<open>NaN\<close> is at least 1.  The offset is the product \<^verbatim>\<open>(page - 1) * limit\<close> of double
  arithmetic: it is \<open>NaN\<close> or not negative, and when the effective values are integers \<open>p\<close>
  and \<open>l\<close> with \<open>p * l < 2^53\<close> it is the integer \<open>(p - 1) * l\<close>.
\<close>

theorem page_and_limit_coercion:
  "(q ''page'' = None \<longrightarrow> currentPage q = Fin 1)
   \<and> (q ''limit'' = None \<longrightarrow> limitPerPage q = Fin 10)
   \<and> (\<forall>v n. q ''page'' = Some v \<and> toNumber (toStr v) = Fin n
         \<longrightarrow> currentPage q = Fin (max 1 n))
   \<and> (\<forall>v n. q ''limit'' = Some v \<and> toNumber (toStr v) = Fin n
         \<longrightarrow> limitPerPage q = Fin (max 1 n))
   \<and> (currentPage q \<noteq> NaN \<longrightarrow> js_le (Fin 1) (currentPage q))
   \<and> (limitPerPage q \<noteq> NaN \<longrightarrow> js_le (Fin 1) (limitPerPage q))
   \<and> (\<forall>v. q ''page'' = Some v \<and> toNumber (toStr v) = NaN \<longrightarrow> currentPage q = NaN)
   \<and> (\<forall>v. q ''limit'' = Some v \<and> toNumber (toStr v) = NaN \<longrightarrow> limitPerPage q = NaN)
   \<and> offset q = js_mul (js_sub (currentPage q) (Fin 1)) (limitPerPage q)
   \<and> (offset q = NaN \<or> js_le (Fin 0) (offset q))
   \<and> (\<forall>p l. currentPage q = Fin (of_int p) \<and> limitPerPage q = Fin (of_int l) \<and> p * l < 2 ^ 53
         \<longrightarrow> offset q = Fin (of_int ((p - 1) * l)) \<and> 0 \<le> (p - 1) * l)"
proof (intro conjI impI allI)
  fix p l
  assume a: "currentPage q = Fin (of_int p) \<and> limitPerPage q = Fin (of_int l) \<and> p * l < 2 ^ 53"
  then show "offset q = Fin (of_int ((p - 1) * l))" by (intro offset_integers(1)) simp_all
  from a show "0 \<le> (p - 1) * l" by (intro offset_integers(4)[of q]) simp_all
next
  show "currentPage q \<noteq> NaN \<Longrightarrow> js_le (Fin 1) (currentPage q)"
    unfolding currentPage_def by (rule Math_max_one_ge)
next
  show "limitPerPage q \<noteq> NaN \<Longrightarrow> js_le (Fin 1) (limitPerPage q)"
    unfolding limitPerPage_def by (rule Math_max_one_ge)
next
  show "offset q = js_mul (js_sub (currentPage q) (Fin 1)) (limitPerPage q)"
    by (simp add: offset_def)
next
  show "offset q = NaN \<or> js_le (Fin 0) (offset q)" by (rule offset_nonneg)
qed (auto simp: currentPage_def limitPerPage_def unaryPlus_def Math_max_one)

theorem page_and_limit_coercion_witness:
  "queryOf [(''page'', ''3''), (''limit'', ''7'')] ''page'' = Some (QStr ''3'')
   \<and> toNumber (toStr (QStr ''3'')) = Fin 3
   \<and> currentPage (queryOf [(''page'', ''3''), (''limit'', ''7'')]) = Fin 3
   \<and> queryOf [(''page'', ''3''), (''limit'', ''7'')] ''limit'' = Some (QStr ''7'')
   \<and> toNumber (toStr (QStr ''7'')) = Fin 7
   \<and> limitPerPage (queryOf [(''page'', ''3''), (''limit'', ''7'')]) = Fin 7
   \<and> offset (queryOf [(''page'', ''3''), (''limit'', ''7'')]) = Fin 14
   \<and> noQuery ''page'' = None \<and> noQuery ''limit'' = None
   \<and> currentPage noQuery = Fin 1 \<and> limitPerPage noQuery = Fin 10
   \<and> queryOf [(''page'', ''abc''), (''limit'', ''ten'')] ''page'' = Some (QStr ''abc'')
   \<and> queryOf [(''page'', ''abc''), (''limit'', ''ten'')] ''limit'' = Some (QStr ''ten'')
   \<and> toNumber (toStr (QStr ''abc'')) = NaN \<and> toNumber (toStr (QStr ''ten'')) = NaN
   \<and> currentPage (queryOf [(''page'', ''abc''), (''limit'', ''ten'')]) = NaN
   \<and> limitPerPage (queryOf [(''page'', ''abc''), (''limit'', ''ten'')]) = NaN"
proof -
  let ?q = "queryOf [(''page'', ''3''), (''limit'', ''7'')]"
  let ?n = "queryOf [(''page'', ''abc''), (''limit'', ''ten'')]"
  have 1: "?q ''page'' = Some (QStr ''3'')" by (simp add: queryOf_def)
  have 2: "?q ''limit'' = Some (QStr ''7'')" by (simp add: queryOf_def)
  have 3: "toNumber (toStr (QStr ''3'')) = Fin 3" by code_simp
  have 4: "toNumber (toStr (QStr ''7'')) = Fin 7" by code_simp
  have 5: "noQuery ''page'' = None \<and> noQuery ''limit'' = None" by (simp add: noQuery_def)
  from page_and_limit_coercion [of ?q] 1 2 3 4
  have 6: "currentPage ?q = Fin 3 \<and> limitPerPage ?q = Fin 7"
    by simp
  then have "currentPage ?q = Fin (of_int 3) \<and> limitPerPage ?q = Fin (of_int 7)
               \<and> (3::int) * 7 < 2 ^ 53"
    by simp
  with page_and_limit_coercion [of ?q]
  have "offset ?q = Fin (of_int ((3 - 1) * 7))" by blast
  then have 7: "offset ?q = Fin 14" by simp
  from page_and_limit_coercion [of noQuery] 5
  have 8: "currentPage noQuery = Fin 1 \<and> limitPerPage noQuery = Fin 10"
    by simp
  have 9: "?n ''page'' = Some (QStr ''abc'')" "?n ''limit'' = Some (QStr ''ten'')"
    by (simp_all add: queryOf_def)
  have 10: "toNumber (toStr (QStr ''abc'')) = NaN" "toNumber (toStr (QStr ''ten'')) = NaN"
    by code_simp+
  from page_and_limit_coercion [of ?n] 9 10
  have 11: "currentPage ?n = NaN \<and> limitPerPage ?n = NaN" by blast
  from 1 2 3 4 5 6 7 8 9 10 11 show ?thesis by simp
qed

text \<open>
  Claim C6, as the spec has it, fails: \<^verbatim>\<open>?limit=2.5\<close> gives the effective limit 2.5, which is
  not an integer, and \<^verbatim>\<open>?page=abc\<close> gives the effective page \<open>NaN\<close>, which is not at least 1.
\<close>

theorem page_and_limit_not_integers:
  "limitPerPage (queryOf [(''limit'', ''2.5'')]) = Fin (5 / 2)
   \<and> \<not> isInteger (limitPerPage (queryOf [(''limit'', ''2.5'')]))
   \<and> currentPage (queryOf [(''page'', ''abc'')]) = NaN
   \<and> \<not> js_le (Fin 1) (currentPage (queryOf [(''page'', ''abc'')]))"
proof -
  have 1: "limitPerPage (queryOf [(''limit'', ''2.5'')]) = Fin (5 / 2)" by code_simp
  have 2: "currentPage (queryOf [(''page'', ''abc'')]) = NaN" by code_simp
  have 3: "\<not> isInteger (Fin (5 / 2))" by code_simp
  from 1 2 3 show ?thesis by simp
qed

text \<open>
  The offset of a fractional page is the rounded product: \<^verbatim>\<open>(1.7 - 1) * 10\<close> is 7 and
  \<^verbatim>\<open>(2.1 - 1) * 10\<close> is 11, both ties that round to the even significand.
\<close>

lemma offset_of_fractions:
  "offset (queryOf [(''page'', ''1.7''), (''limit'', ''10'')]) = Fin 7"
  "offset (queryOf [(''page'', ''2.1'')]) = Fin 11"
  "offset (queryOf [(''page'', ''2.1''), (''limit'', ''1'')])
     = Fin (2476979795053773 / 2251799813685248)"
  by code_simp+

subsection \<open>The shape of the list handlers\<close>

lemma intParam_finite: "intParam x = Inr n \<Longrightarrow> isFinite x"
  by (auto simp: intParam_def isFinite_def split: jsnum.splits)

lemma intParam_Inl: "intParam x = Inl e \<Longrightarrow> e = StoreFailure"
  by (auto simp: intParam_def split: jsnum.splits if_splits)

lemma getUserDepartments_role:
  assumes "userRecord d userId = Some u" and "u_role u = ''teacher'' \<or> u_role u = ''student''"
  shows "getUserDepartments d userId q =
     tryCatch ''Failed to fetch user departments''
       (awaited (limitOffset (limitPerPage q) (offset q) (departmentsList d (u_role u) userId))
          (\<lambda>rows. Inr (listResponse (map DepartmentItem rows) q
                          (countDistinct d_id (departmentsJoin d (u_role u) userId)))))"
  using assms by (auto simp: getUserDepartments_def Let_def)

lemma getUserSubjects_role:
  assumes "userRecord d userId = Some u" and "u_role u = ''teacher'' \<or> u_role u = ''student''"
  shows "getUserSubjects d userId q =
     tryCatch ''Failed to fetch user subjects''
       (awaited (limitOffset (limitPerPage q) (offset q) (subjectsList d (u_role u) userId))
          (\<lambda>rows. Inr (listResponse (map (\<lambda>(s, dp). SubjectItem s dp) rows) q
                          (countDistinct s_id (subjectsCountJoin d (u_role u) userId)))))"
  using assms by (auto simp: getUserSubjects_def Let_def)

lemma getSubjectClasses_int:
  assumes "intParam (toNumber pid) = Inr n"
  shows "getSubjectClasses d pid q =
     tryCatch ''Failed to fetch subject classes''
       (awaited
          (limitOffset (limitPerPage q) (offset q)
             (orderByDesc (\<lambda>(c, u). c_createdAt c)
                (filter (\<lambda>(c, u). c_subjectId c = n)
                   (leftJoin (classes d) (user d) (\<lambda>c u. c_teacherId c = u_id u)))))
          (\<lambda>classesList.
             Inr (listResponse (map (\<lambda>(c, u). SubjectClassItem c u) classesList) q
                    (countAll (filter (\<lambda>c. c_subjectId c = n) (classes d))))))"
  using assms intParam_finite[OF assms] by (simp add: getSubjectClasses_def Let_def try_simps)

lemma getSubjectUsers_int:
  assumes "intParam (toNumber pid) = Inr n" and "validRole (q ''role'') = Some role"
  shows "getSubjectUsers d pid q =
     tryCatch ''Failed to fetch subject users''
       (awaited
          (limitOffset (limitPerPage q) (offset q)
             (orderByDesc u_createdAt (groupBy (\<lambda>u. u) (subjectUsersJoin d role n))))
          (\<lambda>usersList.
             Inr (listResponse (map UserItem usersList) q
                    (countDistinct u_id (subjectUsersJoin d role n)))))"
  using assms intParam_finite[OF assms(1)] by (simp add: getSubjectUsers_def Let_def try_simps)

lemma getClassUsers_int:
  assumes "intParam (toNumber pid) = Inr n" and "validRole (q ''role'') = Some role"
  shows "getClassUsers d pid q =
     tryCatch ''Failed to fetch class users''
       (awaited
          (limitOffset (limitPerPage q) (offset q)
             (orderByDesc u_createdAt (groupBy (\<lambda>u. u) (classUsersJoin d role n))))
          (\<lambda>usersList.
             Inr (listResponse (map UserItem usersList) q
                    (countDistinct u_id (classUsersJoin d role n)))))"
  using assms intParam_finite[OF assms(1)] by (simp add: getClassUsers_def Let_def try_simps)

text \<open>A finite id that is not an integer of 32 bits ends in the \<^verbatim>\<open>catch\<close> block.\<close>

lemma id_rejected:
  assumes "isFinite (toNumber pid)" and "intParam (toNumber pid) = Inl e"
  shows "getSubject d pid = errorResponse 500 ''Failed to fetch subject details''"
    and "getSubjectClasses d pid q = errorResponse 500 ''Failed to fetch subject classes''"
    and "validRole (q ''role'') \<noteq> None
           \<Longrightarrow> getSubjectUsers d pid q = errorResponse 500 ''Failed to fetch subject users''"
    and "getClass d pid = errorResponse 500 ''Failed to fetch class details''"
    and "validRole (q ''role'') \<noteq> None
           \<Longrightarrow> getClassUsers d pid q = errorResponse 500 ''Failed to fetch class users''"
  using assms
  by (auto simp: getSubject_def getSubjectClasses_def getSubjectUsers_def getClass_def
        getClassUsers_def Let_def try_simps)

subsection \<open>The pagination envelope\<close>







subsection \<open>Left joins\<close>

lemma set_leftJoin:
  "set (leftJoin rows tbl on) =
     {(l, Some r) | l r. l \<in> set rows \<and> r \<in> set tbl \<and> on l r}
     \<union> {(l, None) | l. l \<in> set rows \<and> (\<forall>r\<in>set tbl. \<not> on l r)}"
proof -
  have row: "set (case filter (on l) tbl of [] \<Rightarrow> [(l, None)] | ms \<Rightarrow> map (\<lambda>r. (l, Some r)) ms)
      = {(l, Some r) | r. r \<in> set tbl \<and> on l r}
        \<union> {(l, None) | x. x = l \<and> (\<forall>r\<in>set tbl. \<not> on l r)}"
    for l
  proof (cases "filter (on l) tbl")
    case Nil
    then have "\<forall>r\<in>set tbl. \<not> on l r" by (simp add: filter_empty_conv)
    with Nil show ?thesis by auto
  next
    case (Cons m ms)
    then have "m \<in> set (filter (on l) tbl)" by simp
    then have ex: "\<exists>r\<in>set tbl. on l r" by auto
    have "set (map (\<lambda>r. (l, Some r)) (filter (on l) tbl))
            = {(l, Some r) | r. r \<in> set tbl \<and> on l r}"
      by auto
    with Cons ex show ?thesis by auto
  qed
  show ?thesis
    unfolding leftJoin_def set_concat set_map
    by (auto simp: row)
qed

lemma leftJoin_fst: "(l, r) \<in> set (leftJoin rows tbl on) \<Longrightarrow> l \<in> set rows"
  by (auto simp: set_leftJoin)

lemma leftJoin_Some:
  "(l, Some r) \<in> set (leftJoin rows tbl on) \<longleftrightarrow> l \<in> set rows \<and> r \<in> set tbl \<and> on l r"
  by (auto simp: set_leftJoin)

lemma leftJoin_None:
  "(l, None) \<in> set (leftJoin rows tbl on) \<longleftrightarrow> l \<in> set rows \<and> (\<forall>r\<in>set tbl. \<not> on l r)"
  by (auto simp: set_leftJoin)

subsection \<open>Path ids on the subject and class routes\<close>

lemma subjectUsersJoin_empty:
  "\<forall>c\<in>set (classes d). c_subjectId c \<noteq> n \<Longrightarrow> subjectUsersJoin d role n = []"
  by (auto simp: subjectUsersJoin_def filter_empty_conv set_leftJoin sql_eq_def col_def)

lemma classUsersJoin_empty:
  "\<forall>c\<in>set (classes d). c_id c \<noteq> n \<Longrightarrow> \<forall>e\<in>set (enrollments d). e_classId e \<noteq> n
     \<Longrightarrow> classUsersJoin d role n = []"
  by (auto simp: classUsersJoin_def filter_empty_conv set_leftJoin sql_eq_def col_def)

lemma intParam_cases:
  obtains "\<not> isFinite x" | "isFinite x" and "intParam x = Inl StoreFailure"
  | n where "intParam x = Inr n"
proof (cases "intParam x")
  case (Inl e)
  then show ?thesis using that(1,2) intParam_Inl[OF Inl] by (cases "isFinite x") simp_all
next
  case (Inr n)
  then show ?thesis by (rule that(3))
qed

lemma not_finite_400:
  assumes "\<not> isFinite (toNumber pid)"
  shows "getSubject d pid = errorResponse 400 ''Invalid subject id''"
    and "getSubjectClasses d pid q = errorResponse 400 ''Invalid subject id''"
    and "getSubjectUsers d pid q = errorResponse 400 ''Invalid subject id''"
    and "getClass d pid = errorResponse 400 ''Invalid class id''"
    and "getClassUsers d pid q = errorResponse 400 ''Invalid class id''"
  using assms
  by (simp_all add: getSubject_def getSubjectClasses_def getSubjectUsers_def getClass_def
        getClassUsers_def Let_def try_simps)

lemma list_routes_status:
  "status (getSubjectClasses d pid q) \<in> {200, 400, 500}"
  "status (getSubjectUsers d pid q) \<in> {200, 400, 500}"
  "status (getClassUsers d pid q) \<in> {200, 400, 500}"
proof -
  show "status (getSubjectClasses d pid q) \<in> {200, 400, 500}"
  proof (cases "toNumber pid" rule: intParam_cases)
    case 1
    then show ?thesis by (simp add: not_finite_400 errorResponse_def)
  next
    case 2
    then show ?thesis by (simp add: id_rejected errorResponse_def)
  next
    case (3 n)
    then show ?thesis by (simp add: getSubjectClasses_int paged_status)
  qed
  show "status (getSubjectUsers d pid q) \<in> {200, 400, 500}"
  proof (cases "toNumber pid" rule: intParam_cases)
    case 1
    then show ?thesis by (simp add: not_finite_400 errorResponse_def)
  next
    case 2
    then show ?thesis
      by (cases "validRole (q ''role'')")
        (simp_all add: id_rejected getSubjectUsers_def Let_def try_simps errorResponse_def)
  next
    case (3 n)
    then show ?thesis
      by (cases "validRole (q ''role'')")
        (simp_all add: getSubjectUsers_int[where q = q] paged_status getSubjectUsers_def
           Let_def try_simps errorResponse_def intParam_finite)
  qed
  show "status (getClassUsers d pid q) \<in> {200, 400, 500}"
  proof (cases "toNumber pid" rule: intParam_cases)
    case 1
    then show ?thesis by (simp add: not_finite_400 errorResponse_def)
  next
    case 2
    then show ?thesis
      by (cases "validRole (q ''role'')")
        (simp_all add: id_rejected getClassUsers_def Let_def try_simps errorResponse_def)
  next
    case (3 n)
    then show ?thesis
      by (cases "validRole (q ''role'')")
        (simp_all add: getClassUsers_int[where q = q] paged_status getClassUsers_def
           Let_def try_simps errorResponse_def intParam_finite)
  qed
qed

text \<open>
  Claim C7, as the code has it.  On the five routes a path id that does not parse to a finite
  number gives status 400 with an error body.  On \<^verbatim>\<open>GET /subjects/:id\<close> and
  \<^verbatim>\<open>GET /classes/:id\<close> an id that is an integer of 32 bits and matches no stored row gives
  status 404 with an error body.  The three list routes never look the subject or the class
  up and never answer 404: for such an id that no class (and no enrollment) refers to they
  answer 200 with an empty page and total 0 when the engine takes the window of page and
  limit, and 500 when it does not, given a valid role where a role is required.  A finite id
  that is not an integer of 32 bits is rejected by the engine, and every one of the five
  routes answers 500, the two users routes after their check of the role.
\<close>

theorem path_id_handling:
  "(\<not> isFinite (toNumber pid)
      \<longrightarrow> getSubject d pid = \<lparr>status = 400, body = Error ''Invalid subject id''\<rparr>
        \<and> getSubjectClasses d pid q = \<lparr>status = 400, body = Error ''Invalid subject id''\<rparr>
        \<and> getSubjectUsers d pid q = \<lparr>status = 400, body = Error ''Invalid subject id''\<rparr>
        \<and> getClass d pid = \<lparr>status = 400, body = Error ''Invalid class id''\<rparr>
        \<and> getClassUsers d pid q = \<lparr>status = 400, body = Error ''Invalid class id''\<rparr>)
   \<and> (intParam (toNumber pid) = Inr n \<and> (\<forall>s\<in>set (subjects d). s_id s \<noteq> n)
      \<longrightarrow> getSubject d pid = \<lparr>status = 404, body = Error ''Subject not found''\<rparr>)
   \<and> (intParam (toNumber pid) = Inr n \<and> (\<forall>c\<in>set (classes d). c_id c \<noteq> n)
      \<longrightarrow> getClass d pid = \<lparr>status = 404, body = Error ''Class not found''\<rparr>)
   \<and> status (getSubjectClasses d pid q) \<noteq> 404
   \<and> status (getSubjectUsers d pid q) \<noteq> 404
   \<and> status (getClassUsers d pid q) \<noteq> 404
   \<and> (intParam (toNumber pid) = Inr n \<and> (\<forall>c\<in>set (classes d). c_subjectId c \<noteq> n)
        \<and> accepted q
      \<longrightarrow> getSubjectClasses d pid q = listResponse [] q (Fin 0)
        \<and> (validRole (q ''role'') \<noteq> None
              \<longrightarrow> getSubjectUsers d pid q = listResponse [] q (Fin 0)))
   \<and> (intParam (toNumber pid) = Inr n \<and> (\<forall>c\<in>set (classes d). c_id c \<noteq> n)
        \<and> (\<forall>e\<in>set (enrollments d). e_classId e \<noteq> n)
        \<and> accepted q \<and> validRole (q ''role'') \<noteq> None
      \<longrightarrow> getClassUsers d pid q = listResponse [] q (Fin 0))
   \<and> (intParam (toNumber pid) = Inr n \<and> \<not> accepted q
      \<longrightarrow> getSubjectClasses d pid q
            = \<lparr>status = 500, body = Error ''Failed to fetch subject classes''\<rparr>
        \<and> (validRole (q ''role'') \<noteq> None
              \<longrightarrow> getSubjectUsers d pid q
                    = \<lparr>status = 500, body = Error ''Failed to fetch subject users''\<rparr>
                \<and> getClassUsers d pid q
                    = \<lparr>status = 500, body = Error ''Failed to fetch class users''\<rparr>))
   \<and> (isFinite (toNumber pid) \<and> intParam (toNumber pid) = Inl StoreFailure
      \<longrightarrow> getSubject d pid = \<lparr>status = 500, body = Error ''Failed to fetch subject details''\<rparr>
        \<and> getClass d pid = \<lparr>status = 500, body = Error ''Failed to fetch class details''\<rparr>
        \<and> getSubjectClasses d pid q
            = \<lparr>status = 500, body = Error ''Failed to fetch subject classes''\<rparr>
        \<and> (validRole (q ''role'') \<noteq> None
              \<longrightarrow> getSubjectUsers d pid q
                    = \<lparr>status = 500, body = Error ''Failed to fetch subject users''\<rparr>
                \<and> getClassUsers d pid q
                    = \<lparr>status = 500, body = Error ''Failed to fetch class users''\<rparr>))"
proof (intro conjI impI)
  assume "\<not> isFinite (toNumber pid)"
  then show "getSubject d pid = \<lparr>status = 400, body = Error ''Invalid subject id''\<rparr>"
    "getSubjectClasses d pid q = \<lparr>status = 400, body = Error ''Invalid subject id''\<rparr>"
    "getSubjectUsers d pid q = \<lparr>status = 400, body = Error ''Invalid subject id''\<rparr>"
    "getClass d pid = \<lparr>status = 400, body = Error ''Invalid class id''\<rparr>"
    "getClassUsers d pid q = \<lparr>status = 400, body = Error ''Invalid class id''\<rparr>"
    by (simp_all add: not_finite_400 errorResponse_def)
next
  assume a: "intParam (toNumber pid) = Inr n \<and> (\<forall>s\<in>set (subjects d). s_id s \<noteq> n)"
  then have "firstRow (filter (\<lambda>(s, dp). s_id s = n)
        (leftJoin (subjects d) (departments d) (\<lambda>s dp. s_departmentId s = d_id dp))) = None"
    by (auto simp: firstRow_filter_None dest: leftJoin_fst)
  with a show "getSubject d pid = \<lparr>status = 404, body = Error ''Subject not found''\<rparr>"
    by (simp add: getSubject_def Let_def errorResponse_def intParam_finite try_simps)
next
  assume a: "intParam (toNumber pid) = Inr n \<and> (\<forall>c\<in>set (classes d). c_id c \<noteq> n)"
  then have "firstRow (filter (\<lambda>(((c, s), dp), u). c_id c = n)
      (leftJoin
         (leftJoin
            (leftJoin (classes d) (subjects d) (\<lambda>c s. c_subjectId c = s_id s))
            (departments d)
            (\<lambda>(c, s) dp. sql_eq (col s_departmentId s) (Some (d_id dp))))
         (user d) (\<lambda>((c, s), dp) u. c_teacherId c = u_id u))) = None"
    by (auto simp: firstRow_filter_None dest!: leftJoin_fst)
  with a show "getClass d pid = \<lparr>status = 404, body = Error ''Class not found''\<rparr>"
    by (simp add: getClass_def Let_def errorResponse_def intParam_finite try_simps)
next
  show "status (getSubjectClasses d pid q) \<noteq> 404"
    using list_routes_status(1)[of d pid q] by auto
  show "status (getSubjectUsers d pid q) \<noteq> 404"
    using list_routes_status(2)[of d pid q] by auto
  show "status (getClassUsers d pid q) \<noteq> 404"
    using list_routes_status(3)[of d pid q] by auto
next
  assume a: "intParam (toNumber pid) = Inr n \<and> (\<forall>c\<in>set (classes d). c_subjectId c \<noteq> n)
        \<and> accepted q"
  then have e1: "filter (\<lambda>c. c_subjectId c = n) (classes d) = []"
    by (simp add: filter_empty_conv)
  from a have e2: "filter (\<lambda>(c, u). c_subjectId c = n)
      (leftJoin (classes d) (user d) (\<lambda>c u. c_teacherId c = u_id u)) = []"
    by (auto simp: filter_empty_conv dest: leftJoin_fst)
  from a show "getSubjectClasses d pid q = listResponse [] q (Fin 0)"
    by (simp add: getSubjectClasses_int e1 e2 countAll_def orderByDesc_def paged_empty)
  from a have e: "\<And>role. subjectUsersJoin d role n = []"
    by (simp add: subjectUsersJoin_empty)
  show "getSubjectUsers d pid q = listResponse [] q (Fin 0)"
    if "validRole (q ''role'') \<noteq> None"
  proof -
    from that obtain role where "validRole (q ''role'') = Some role" by auto
    with a show ?thesis
      by (simp add: getSubjectUsers_int[where q = q] e countDistinct_def groupBy_def
            orderByDesc_def paged_empty)
  qed
next
  assume a: "intParam (toNumber pid) = Inr n \<and> (\<forall>c\<in>set (classes d). c_id c \<noteq> n)
        \<and> (\<forall>e\<in>set (enrollments d). e_classId e \<noteq> n)
        \<and> accepted q \<and> validRole (q ''role'') \<noteq> None"
  then have e: "\<And>role. classUsersJoin d role n = []"
    by (simp add: classUsersJoin_empty)
  from a obtain role where "validRole (q ''role'') = Some role" by auto
  with a show "getClassUsers d pid q = listResponse [] q (Fin 0)"
    by (simp add: getClassUsers_int[where q = q] e countDistinct_def groupBy_def
          orderByDesc_def paged_empty)
next
  assume a: "intParam (toNumber pid) = Inr n \<and> \<not> accepted q"
  then show "getSubjectClasses d pid q
            = \<lparr>status = 500, body = Error ''Failed to fetch subject classes''\<rparr>"
    by (simp add: getSubjectClasses_int paged_rejected errorResponse_def)
  assume "validRole (q ''role'') \<noteq> None"
  then obtain role where r: "validRole (q ''role'') = Some role" by auto
  from a r show "getSubjectUsers d pid q
                    = \<lparr>status = 500, body = Error ''Failed to fetch subject users''\<rparr>"
    by (simp add: getSubjectUsers_int[where q = q] paged_rejected errorResponse_def)
  from a r show "getClassUsers d pid q
                    = \<lparr>status = 500, body = Error ''Failed to fetch class users''\<rparr>"
    by (simp add: getClassUsers_int[where q = q] paged_rejected errorResponse_def)
next
  assume a: "isFinite (toNumber pid) \<and> intParam (toNumber pid) = Inl StoreFailure"
  then show "getSubject d pid = \<lparr>status = 500, body = Error ''Failed to fetch subject details''\<rparr>"
    "getClass d pid = \<lparr>status = 500, body = Error ''Failed to fetch class details''\<rparr>"
    "getSubjectClasses d pid q
            = \<lparr>status = 500, body = Error ''Failed to fetch subject classes''\<rparr>"
    by (simp_all add: id_rejected errorResponse_def)
  assume "validRole (q ''role'') \<noteq> None"
  with a show "getSubjectUsers d pid q
                    = \<lparr>status = 500, body = Error ''Failed to fetch subject users''\<rparr>"
    "getClassUsers d pid q
                    = \<lparr>status = 500, body = Error ''Failed to fetch class users''\<rparr>"
    by (simp_all add: id_rejected errorResponse_def)
qed

theorem path_id_handling_witness:
  "\<not> isFinite (toNumber ''abc'')
   \<and> getSubject school ''abc'' = \<lparr>status = 400, body = Error ''Invalid subject id''\<rparr>
   \<and> getSubjectClasses school ''abc'' noQuery
       = \<lparr>status = 400, body = Error ''Invalid subject id''\<rparr>
   \<and> getSubjectUsers school ''abc'' noQuery
       = \<lparr>status = 400, body = Error ''Invalid subject id''\<rparr>
   \<and> getClass school ''abc'' = \<lparr>status = 400, body = Error ''Invalid class id''\<rparr>
   \<and> getClassUsers school ''abc'' noQuery
       = \<lparr>status = 400, body = Error ''Invalid class id''\<rparr>
   \<and> intParam (toNumber ''99999'') = Inr 99999
   \<and> list_all (\<lambda>s. s_id s \<noteq> 99999) (subjects school)
   \<and> list_all (\<lambda>c. c_id c \<noteq> 99999) (classes school)
   \<and> list_all (\<lambda>c. c_subjectId c \<noteq> 99999) (classes school)
   \<and> list_all (\<lambda>e. e_classId e \<noteq> 99999) (enrollments school)
   \<and> getSubject school ''99999'' = \<lparr>status = 404, body = Error ''Subject not found''\<rparr>
   \<and> getClass school ''99999'' = \<lparr>status = 404, body = Error ''Class not found''\<rparr>
   \<and> accepted (queryOf [(''role'', ''teacher'')])
   \<and> validRole (queryOf [(''role'', ''teacher'')] ''role'') \<noteq> None
   \<and> getSubjectClasses school ''99999'' (queryOf [(''role'', ''teacher'')])
       = listResponse [] (queryOf [(''role'', ''teacher'')]) (Fin 0)
   \<and> getSubjectUsers school ''99999'' (queryOf [(''role'', ''teacher'')])
       = listResponse [] (queryOf [(''role'', ''teacher'')]) (Fin 0)
   \<and> getClassUsers school ''99999'' (queryOf [(''role'', ''teacher'')])
       = listResponse [] (queryOf [(''role'', ''teacher'')]) (Fin 0)
   \<and> \<not> accepted (queryOf [(''role'', ''teacher''), (''limit'', ''2.5'')])
   \<and> validRole (queryOf [(''role'', ''teacher''), (''limit'', ''2.5'')] ''role'') \<noteq> None
   \<and> getSubjectClasses school ''99999'' (queryOf [(''role'', ''teacher''), (''limit'', ''2.5'')])
       = \<lparr>status = 500, body = Error ''Failed to fetch subject classes''\<rparr>
   \<and> getSubjectUsers school ''99999'' (queryOf [(''role'', ''teacher''), (''limit'', ''2.5'')])
       = \<lparr>status = 500, body = Error ''Failed to fetch subject users''\<rparr>
   \<and> getClassUsers school ''99999'' (queryOf [(''role'', ''teacher''), (''limit'', ''2.5'')])
       = \<lparr>status = 500, body = Error ''Failed to fetch class users''\<rparr>
   \<and> isFinite (toNumber ''1.5'') \<and> intParam (toNumber ''1.5'') = Inl StoreFailure
   \<and> getSubject school ''1.5'' = \<lparr>status = 500, body = Error ''Failed to fetch subject details''\<rparr>
   \<and> getClass school ''1.5'' = \<lparr>status = 500, body = Error ''Failed to fetch class details''\<rparr>
   \<and> getSubjectClasses school ''1.5'' (queryOf [(''role'', ''teacher'')])
       = \<lparr>status = 500, body = Error ''Failed to fetch subject classes''\<rparr>
   \<and> getSubjectUsers school ''1.5'' (queryOf [(''role'', ''teacher'')])
       = \<lparr>status = 500, body = Error ''Failed to fetch subject users''\<rparr>
   \<and> getClassUsers school ''1.5'' (queryOf [(''role'', ''teacher'')])
       = \<lparr>status = 500, body = Error ''Failed to fetch class users''\<rparr>"
proof -
  let ?q = "queryOf [(''role'', ''teacher'')]"
  let ?r = "queryOf [(''role'', ''teacher''), (''limit'', ''2.5'')]"
  have 1: "\<not> isFinite (toNumber ''abc'')" by code_simp
  have 2: "intParam (toNumber ''99999'') = Inr 99999" by code_simp
  have 3: "list_all (\<lambda>s. s_id s \<noteq> 99999) (subjects school)" by code_simp
  have 4: "list_all (\<lambda>c. c_id c \<noteq> 99999) (classes school)" by code_simp
  have 5: "list_all (\<lambda>c. c_subjectId c \<noteq> 99999) (classes school)" by code_simp
  have 6: "list_all (\<lambda>e. e_classId e \<noteq> 99999) (enrollments school)" by code_simp
  have 7: "accepted ?q" by code_simp
  have 8: "validRole (?q ''role'') \<noteq> None" by code_simp
  have 9: "\<not> accepted ?r" by code_simp
  have 10: "validRole (?r ''role'') \<noteq> None" by code_simp
  have 11: "isFinite (toNumber ''1.5'')" by code_simp
  have 12: "intParam (toNumber ''1.5'') = Inl StoreFailure" by code_simp
  from 3 4 5 6 have b: "\<forall>s\<in>set (subjects school). s_id s \<noteq> 99999"
    "\<forall>c\<in>set (classes school). c_id c \<noteq> 99999"
    "\<forall>c\<in>set (classes school). c_subjectId c \<noteq> 99999"
    "\<forall>e\<in>set (enrollments school). e_classId e \<noteq> 99999"
    by (simp_all add: list_all_iff)
  note a = path_id_handling[where pid = "''abc''" and d = school and q = noQuery and n = 0]
  from a 1 have A: "getSubject school ''abc'' = \<lparr>status = 400, body = Error ''Invalid subject id''\<rparr>
   \<and> getSubjectClasses school ''abc'' noQuery
       = \<lparr>status = 400, body = Error ''Invalid subject id''\<rparr>
   \<and> getSubjectUsers school ''abc'' noQuery
       = \<lparr>status = 400, body = Error ''Invalid subject id''\<rparr>
   \<and> getClass school ''abc'' = \<lparr>status = 400, body = Error ''Invalid class id''\<rparr>
   \<and> getClassUsers school ''abc'' noQuery
       = \<lparr>status = 400, body = Error ''Invalid class id''\<rparr>"
    by blast
  note n = path_id_handling[where pid = "''99999''" and d = school and q = ?q and n = 99999]
  from n 2 b have N: "getSubject school ''99999'' = \<lparr>status = 404, body = Error ''Subject not found''\<rparr>
   \<and> getClass school ''99999'' = \<lparr>status = 404, body = Error ''Class not found''\<rparr>"
    by blast
  from n 2 b 7 8 have L: "getSubjectClasses school ''99999'' ?q = listResponse [] ?q (Fin 0)
   \<and> getSubjectUsers school ''99999'' ?q = listResponse [] ?q (Fin 0)
   \<and> getClassUsers school ''99999'' ?q = listResponse [] ?q (Fin 0)"
    by blast
  note r = path_id_handling[where pid = "''99999''" and d = school and q = ?r and n = 99999]
  from r 2 9 10 have R: "getSubjectClasses school ''99999'' ?r
       = \<lparr>status = 500, body = Error ''Failed to fetch subject classes''\<rparr>
   \<and> getSubjectUsers school ''99999'' ?r
       = \<lparr>status = 500, body = Error ''Failed to fetch subject users''\<rparr>
   \<and> getClassUsers school ''99999'' ?r
       = \<lparr>status = 500, body = Error ''Failed to fetch class users''\<rparr>"
    by blast
  note f = path_id_handling[where pid = "''1.5''" and d = school and q = ?q and n = 0]
  from f 11 12 8 have F: "getSubject school ''1.5''
       = \<lparr>status = 500, body = Error ''Failed to fetch subject details''\<rparr>
   \<and> getClass school ''1.5'' = \<lparr>status = 500, body = Error ''Failed to fetch class details''\<rparr>
   \<and> getSubjectClasses school ''1.5'' ?q
       = \<lparr>status = 500, body = Error ''Failed to fetch subject classes''\<rparr>
   \<and> getSubjectUsers school ''1.5'' ?q
       = \<lparr>status = 500, body = Error ''Failed to fetch subject users''\<rparr>
   \<and> getClassUsers school ''1.5'' ?q
       = \<lparr>status = 500, body = Error ''Failed to fetch class users''\<rparr>"
    by blast
  from 1 2 3 4 5 6 7 8 9 10 11 12 A N L R F show ?thesis by blast
qed

text \<open>
  Claim C7, as the spec has it, fails twice.  On the three list routes the id 99999 is a
  finite number that matches no subject and no class, and the answers are 200 with an empty
  page.  On the two detail routes the id 1.5 is a finite number that matches no row, and the
  answers are 500.
\<close>

theorem list_routes_do_not_answer_404:
  "intParam (toNumber ''99999'') = Inr 99999
   \<and> list_all (\<lambda>s. s_id s \<noteq> 99999) (subjects school)
   \<and> getSubjectClasses school ''99999'' noQuery
       = \<lparr>status = 200,
          body = Page [] \<lparr>pg_page = Fin 1, pg_limit = Fin 10, pg_total = Fin 0,
                           pg_totalPages = Fin 0\<rparr>\<rparr>
   \<and> getSubjectUsers school ''99999'' (queryOf [(''role'', ''teacher'')])
       = \<lparr>status = 200,
          body = Page [] \<lparr>pg_page = Fin 1, pg_limit = Fin 10, pg_total = Fin 0,
                           pg_totalPages = Fin 0\<rparr>\<rparr>
   \<and> list_all (\<lambda>c. c_id c \<noteq> 99999) (classes school)
   \<and> getClassUsers school ''99999'' (queryOf [(''role'', ''student'')])
       = \<lparr>status = 200,
          body = Page [] \<lparr>pg_page = Fin 1, pg_limit = Fin 10, pg_total = Fin 0,
                           pg_totalPages = Fin 0\<rparr>\<rparr>
   \<and> toNumber ''1.5'' = Fin (3 / 2)
   \<and> getSubject school ''1.5''
       = \<lparr>status = 500, body = Error ''Failed to fetch subject details''\<rparr>
   \<and> getClass school ''1.5''
       = \<lparr>status = 500, body = Error ''Failed to fetch class details''\<rparr>"
proof -
  have 1: "intParam (toNumber ''99999'') = Inr 99999" by code_simp
  have 2: "list_all (\<lambda>s. s_id s \<noteq> 99999) (subjects school)" by code_simp
  have 3: "list_all (\<lambda>c. c_id c \<noteq> 99999) (classes school)" by code_simp
  have 4: "getSubjectClasses school ''99999'' noQuery
       = \<lparr>status = 200,
          body = Page [] \<lparr>pg_page = Fin 1, pg_limit = Fin 10, pg_total = Fin 0,
                           pg_totalPages = Fin 0\<rparr>\<rparr>"
    by code_simp
  have 5: "getSubjectUsers school ''99999'' (queryOf [(''role'', ''teacher'')])
       = \<lparr>status = 200,
          body = Page [] \<lparr>pg_page = Fin 1, pg_limit = Fin 10, pg_total = Fin 0,
                           pg_totalPages = Fin 0\<rparr>\<rparr>"
    by code_simp
  have 6: "getClassUsers school ''99999'' (queryOf [(''role'', ''student'')])
       = \<lparr>status = 200,
          body = Page [] \<lparr>pg_page = Fin 1, pg_limit = Fin 10, pg_total = Fin 0,
                           pg_totalPages = Fin 0\<rparr>\<rparr>"
    by code_simp
  have 7: "toNumber ''1.5'' = Fin (3 / 2)" by code_simp
  have 8: "getSubject school ''1.5''
       = \<lparr>status = 500, body = Error ''Failed to fetch subject details''\<rparr>"
    by code_simp
  have 9: "getClass school ''1.5''
       = \<lparr>status = 500, body = Error ''Failed to fetch class details''\<rparr>"
    by code_simp
  from 1 2 3 4 5 6 7 8 9 show ?thesis by blast
qed

subsection \<open>The count queries of the nested listings\<close>

lemma countDistinct_card: "countDistinct k rows = Fin (of_nat (card (k ` set rows)))"
  by (simp add: countDistinct_def length_remdups_card_conv)

lemma sql_eq_col_Some: "sql_eq (col k r) (Some v) \<longleftrightarrow> (\<exists>x. r = Some x \<and> k x = v)"
  by (cases r) (auto simp: sql_eq_def col_def)

lemma sql_eq_Some_col: "sql_eq (Some v) (col k r) \<longleftrightarrow> (\<exists>x. r = Some x \<and> v = k x)"
  by (cases r) (auto simp: sql_eq_def col_def)

lemmas join_simps = sql_eq_col_Some sql_eq_Some_col leftJoin_Some

lemma departmentsJoin_teacher:
  "set (departmentsJoin d ''teacher'' uid) = departmentsTaughtBy d uid"
proof (intro set_eqI iffI)
  fix dp assume "dp \<in> set (departmentsJoin d ''teacher'' uid)"
  then show "dp \<in> departmentsTaughtBy d uid"
    by (fastforce simp: departmentsJoin_def departmentsTaughtBy_def subjectsTaughtBy_def join_simps)
next
  fix dp assume "dp \<in> departmentsTaughtBy d uid"
  then obtain s c where "dp \<in> set (departments d)" "s \<in> set (subjects d)" "c \<in> set (classes d)"
    "s_departmentId s = d_id dp" "c_subjectId c = s_id s" "c_teacherId c = uid"
    by (auto simp: departmentsTaughtBy_def subjectsTaughtBy_def)
  then show "dp \<in> set (departmentsJoin d ''teacher'' uid)"
    by (auto simp: departmentsJoin_def join_simps intro!: image_eqI[where x = "((dp, Some s), Some c)"])
qed

lemma departmentsJoin_student:
  "set (departmentsJoin d ''student'' uid) = departmentsAttendedBy d uid"
proof (intro set_eqI iffI)
  fix dp assume "dp \<in> set (departmentsJoin d ''student'' uid)"
  then show "dp \<in> departmentsAttendedBy d uid"
    by (fastforce simp: departmentsJoin_def departmentsAttendedBy_def subjectsAttendedBy_def join_simps)
next
  fix dp assume "dp \<in> departmentsAttendedBy d uid"
  then obtain s c e where "dp \<in> set (departments d)" "s \<in> set (subjects d)" "c \<in> set (classes d)"
    "e \<in> set (enrollments d)"
    "s_departmentId s = d_id dp" "c_subjectId c = s_id s" "e_classId e = c_id c" "e_studentId e = uid"
    by (auto simp: departmentsAttendedBy_def subjectsAttendedBy_def)
  then show "dp \<in> set (departmentsJoin d ''student'' uid)"
    by (auto simp: departmentsJoin_def join_simps
          intro!: image_eqI[where x = "(((dp, Some s), Some c), Some e)"])
qed

lemma subjectsCountJoin_teacher:
  "set (subjectsCountJoin d ''teacher'' uid) = subjectsTaughtBy d uid"
proof (intro set_eqI iffI)
  fix s assume "s \<in> set (subjectsCountJoin d ''teacher'' uid)"
  then show "s \<in> subjectsTaughtBy d uid"
    by (fastforce simp: subjectsCountJoin_def subjectsTaughtBy_def join_simps)
next
  fix s assume "s \<in> subjectsTaughtBy d uid"
  then obtain c where "s \<in> set (subjects d)" "c \<in> set (classes d)"
    "c_subjectId c = s_id s" "c_teacherId c = uid"
    by (auto simp: subjectsTaughtBy_def)
  then show "s \<in> set (subjectsCountJoin d ''teacher'' uid)"
    by (auto simp: subjectsCountJoin_def join_simps intro!: image_eqI[where x = "(s, Some c)"])
qed

lemma subjectsCountJoin_student:
  "set (subjectsCountJoin d ''student'' uid) = subjectsAttendedBy d uid"
proof (intro set_eqI iffI)
  fix s assume "s \<in> set (subjectsCountJoin d ''student'' uid)"
  then show "s \<in> subjectsAttendedBy d uid"
    by (fastforce simp: subjectsCountJoin_def subjectsAttendedBy_def join_simps)
next
  fix s assume "s \<in> subjectsAttendedBy d uid"
  then obtain c e where "s \<in> set (subjects d)" "c \<in> set (classes d)" "e \<in> set (enrollments d)"
    "c_subjectId c = s_id s" "e_classId e = c_id c" "e_studentId e = uid"
    by (auto simp: subjectsAttendedBy_def)
  then show "s \<in> set (subjectsCountJoin d ''student'' uid)"
    by (auto simp: subjectsCountJoin_def join_simps
          intro!: image_eqI[where x = "((s, Some c), Some e)"])
qed

lemma subjectUsersJoin_teacher:
  "set (subjectUsersJoin d ''teacher'' n) = teachersOfSubject d n"
proof (intro set_eqI iffI)
  fix u assume "u \<in> set (subjectUsersJoin d ''teacher'' n)"
  then show "u \<in> teachersOfSubject d n"
    by (fastforce simp: subjectUsersJoin_def teachersOfSubject_def join_simps)
next
  fix u assume "u \<in> teachersOfSubject d n"
  then obtain c where "u \<in> set (user d)" "u_role u = ''teacher''" "c \<in> set (classes d)"
    "c_teacherId c = u_id u" "c_subjectId c = n"
    by (auto simp: teachersOfSubject_def)
  then show "u \<in> set (subjectUsersJoin d ''teacher'' n)"
    by (auto simp: subjectUsersJoin_def join_simps intro!: image_eqI[where x = "(u, Some c)"])
qed

lemma subjectUsersJoin_student:
  "set (subjectUsersJoin d ''student'' n) = studentsOfSubject d n"
proof (intro set_eqI iffI)
  fix u assume "u \<in> set (subjectUsersJoin d ''student'' n)"
  then show "u \<in> studentsOfSubject d n"
    by (fastforce simp: subjectUsersJoin_def studentsOfSubject_def join_simps)
next
  fix u assume "u \<in> studentsOfSubject d n"
  then obtain e c where "u \<in> set (user d)" "u_role u = ''student''" "e \<in> set (enrollments d)"
    "c \<in> set (classes d)" "e_studentId e = u_id u" "c_id c = e_classId e" "c_subjectId c = n"
    by (auto simp: studentsOfSubject_def)
  then show "u \<in> set (subjectUsersJoin d ''student'' n)"
    by (auto simp: subjectUsersJoin_def join_simps
          intro!: image_eqI[where x = "((u, Some e), Some c)"])
qed

lemma classUsersJoin_teacher:
  "set (classUsersJoin d ''teacher'' n) = teachersOfClass d n"
proof (intro set_eqI iffI)
  fix u assume "u \<in> set (classUsersJoin d ''teacher'' n)"
  then show "u \<in> teachersOfClass d n"
    by (fastforce simp: classUsersJoin_def teachersOfClass_def join_simps)
next
  fix u assume "u \<in> teachersOfClass d n"
  then obtain c where "u \<in> set (user d)" "u_role u = ''teacher''" "c \<in> set (classes d)"
    "c_teacherId c = u_id u" "c_id c = n"
    by (auto simp: teachersOfClass_def)
  then show "u \<in> set (classUsersJoin d ''teacher'' n)"
    by (auto simp: classUsersJoin_def join_simps intro!: image_eqI[where x = "(u, Some c)"])
qed

lemma classUsersJoin_student:
  "set (classUsersJoin d ''student'' n) = studentsOfClass d n"
proof (intro set_eqI iffI)
  fix u assume "u \<in> set (classUsersJoin d ''student'' n)"
  then show "u \<in> studentsOfClass d n"
    by (fastforce simp: classUsersJoin_def studentsOfClass_def join_simps)
next
  fix u assume "u \<in> studentsOfClass d n"
  then obtain e where "u \<in> set (user d)" "u_role u = ''student''" "e \<in> set (enrollments d)"
    "e_studentId e = u_id u" "e_classId e = n"
    by (auto simp: studentsOfClass_def)
  then show "u \<in> set (classUsersJoin d ''student'' n)"
    by (auto simp: classUsersJoin_def join_simps intro!: image_eqI[where x = "(u, Some e)"])
qed

text \<open>
  \<^verbatim>\<open>count(distinct id)\<close> counts ids.  Under the primary key of the table the ids of a set of
  rows are as many as the rows.
\<close>

lemma card_image_key:
  assumes "distinct (map k xs)" and "S \<subseteq> set xs"
  shows "card (k ` S) = card S"
proof -
  from assms(1) have "inj_on k (set xs)" by (simp add: distinct_map)
  with assms(2) have "inj_on k S" by (blast intro: inj_on_subset)
  then show ?thesis by (rule card_image)
qed

lemma totalOf_listResponse: "totalOf (listResponse rows q t) = Some t"
  by (simp add: totalOf_def listResponse_def)

lemma validRole_Some: "validRole (Some (QStr r)) = (if r = ''teacher'' \<or> r = ''student'' then Some r else None)"
  by (simp add: validRole_def)

lemma paged_total:
  assumes "accepted q"
  shows "status (tryCatch msg (awaited (limitOffset (limitPerPage q) (offset q) rows)
           (\<lambda>xs. Inr (listResponse (g xs) q t)))) = 200"
    and "totalOf (tryCatch msg (awaited (limitOffset (limitPerPage q) (offset q) rows)
           (\<lambda>xs. Inr (listResponse (g xs) q t)))) = Some t"
proof -
  from assms obtain xs where "tryCatch msg (awaited (limitOffset (limitPerPage q) (offset q) rows)
      (\<lambda>xs. Inr (listResponse (g xs) q t))) = listResponse (g xs) q t"
    by (rule paged_accepted)
  then show "status (tryCatch msg (awaited (limitOffset (limitPerPage q) (offset q) rows)
           (\<lambda>xs. Inr (listResponse (g xs) q t)))) = 200"
    and "totalOf (tryCatch msg (awaited (limitOffset (limitPerPage q) (offset q) rows)
           (\<lambda>xs. Inr (listResponse (g xs) q t)))) = Some t"
    by (simp_all add: status_listResponse totalOf_listResponse)
qed

text \<open>
  Claim C1.  On the four nested role-dependent listings, whenever the engine takes the window
  of page and limit, the answer is 200 and the \<^verbatim>\<open>total\<close> of the envelope is the number of
  distinct ids of the related rows that match: the departments (subjects) the teacher reaches
  through a class he teaches or the student through an enrollment, the teachers (students)
  of the subject or of the class.  A row reached along many join paths counts once: in the
  example store the join for the teacher's departments has six rows, one for each class, and
  the total is 1.  When the engine does not take the window there is no envelope: the answer
  is 500.  That the count is also the number of rows of the data query is
  \<open>count_agrees_with_data\<close> below.
\<close>

theorem total_counts_distinct_rows:
  "(userRecord d userId = Some u \<and> u_role u = ''teacher'' \<and> accepted q
      \<longrightarrow> status (getUserDepartments d userId q) = 200
        \<and> totalOf (getUserDepartments d userId q)
            = Some (Fin (of_nat (card (d_id ` departmentsTaughtBy d userId))))
        \<and> status (getUserSubjects d userId q) = 200
        \<and> totalOf (getUserSubjects d userId q)
            = Some (Fin (of_nat (card (s_id ` subjectsTaughtBy d userId)))))
   \<and> (userRecord d userId = Some u \<and> u_role u = ''student'' \<and> accepted q
      \<longrightarrow> status (getUserDepartments d userId q) = 200
        \<and> totalOf (getUserDepartments d userId q)
            = Some (Fin (of_nat (card (d_id ` departmentsAttendedBy d userId))))
        \<and> status (getUserSubjects d userId q) = 200
        \<and> totalOf (getUserSubjects d userId q)
            = Some (Fin (of_nat (card (s_id ` subjectsAttendedBy d userId)))))
   \<and> (intParam (toNumber pid) = Inr n \<and> q ''role'' = Some (QStr ''teacher'') \<and> accepted q
      \<longrightarrow> status (getSubjectUsers d pid q) = 200
        \<and> totalOf (getSubjectUsers d pid q)
            = Some (Fin (of_nat (card (u_id ` teachersOfSubject d n))))
        \<and> status (getClassUsers d pid q) = 200
        \<and> totalOf (getClassUsers d pid q)
            = Some (Fin (of_nat (card (u_id ` teachersOfClass d n)))))
   \<and> (intParam (toNumber pid) = Inr n \<and> q ''role'' = Some (QStr ''student'') \<and> accepted q
      \<longrightarrow> status (getSubjectUsers d pid q) = 200
        \<and> totalOf (getSubjectUsers d pid q)
            = Some (Fin (of_nat (card (u_id ` studentsOfSubject d n))))
        \<and> status (getClassUsers d pid q) = 200
        \<and> totalOf (getClassUsers d pid q)
            = Some (Fin (of_nat (card (u_id ` studentsOfClass d n)))))
   \<and> (userRecord d userId = Some u \<and> (u_role u = ''teacher'' \<or> u_role u = ''student'')
        \<and> \<not> accepted q
      \<longrightarrow> getUserDepartments d userId q
            = \<lparr>status = 500, body = Error ''Failed to fetch user departments''\<rparr>
        \<and> getUserSubjects d userId q
            = \<lparr>status = 500, body = Error ''Failed to fetch user subjects''\<rparr>)"
proof (intro conjI impI)
  assume a: "userRecord d userId = Some u \<and> u_role u = ''teacher'' \<and> accepted q"
  then have s: "getUserDepartments d userId q =
     tryCatch ''Failed to fetch user departments''
       (awaited (limitOffset (limitPerPage q) (offset q) (departmentsList d ''teacher'' userId))
          (\<lambda>rows. Inr (listResponse (map DepartmentItem rows) q
                          (countDistinct d_id (departmentsJoin d ''teacher'' userId)))))"
    using getUserDepartments_role[of d userId u q] by simp
  from a have t: "getUserSubjects d userId q =
     tryCatch ''Failed to fetch user subjects''
       (awaited (limitOffset (limitPerPage q) (offset q) (subjectsList d ''teacher'' userId))
          (\<lambda>rows. Inr (listResponse (map (\<lambda>(s, dp). SubjectItem s dp) rows) q
                          (countDistinct s_id (subjectsCountJoin d ''teacher'' userId)))))"
    using getUserSubjects_role[of d userId u q] by simp
  from a show "status (getUserDepartments d userId q) = 200"
    "totalOf (getUserDepartments d userId q)
       = Some (Fin (of_nat (card (d_id ` departmentsTaughtBy d userId))))"
    unfolding s by (simp_all add: paged_total countDistinct_card departmentsJoin_teacher)
  from a show "status (getUserSubjects d userId q) = 200"
    "totalOf (getUserSubjects d userId q)
       = Some (Fin (of_nat (card (s_id ` subjectsTaughtBy d userId))))"
    unfolding t by (simp_all add: paged_total countDistinct_card subjectsCountJoin_teacher)
next
  assume a: "userRecord d userId = Some u \<and> u_role u = ''student'' \<and> accepted q"
  then have s: "getUserDepartments d userId q =
     tryCatch ''Failed to fetch user departments''
       (awaited (limitOffset (limitPerPage q) (offset q) (departmentsList d ''student'' userId))
          (\<lambda>rows. Inr (listResponse (map DepartmentItem rows) q
                          (countDistinct d_id (departmentsJoin d ''student'' userId)))))"
    using getUserDepartments_role[of d userId u q] by simp
  from a have t: "getUserSubjects d userId q =
     tryCatch ''Failed to fetch user subjects''
       (awaited (limitOffset (limitPerPage q) (offset q) (subjectsList d ''student'' userId))
          (\<lambda>rows. Inr (listResponse (map (\<lambda>(s, dp). SubjectItem s dp) rows) q
                          (countDistinct s_id (subjectsCountJoin d ''student'' userId)))))"
    using getUserSubjects_role[of d userId u q] by simp
  from a show "status (getUserDepartments d userId q) = 200"
    "totalOf (getUserDepartments d userId q)
       = Some (Fin (of_nat (card (d_id ` departmentsAttendedBy d userId))))"
    unfolding s by (simp_all add: paged_total countDistinct_card departmentsJoin_student)
  from a show "status (getUserSubjects d userId q) = 200"
    "totalOf (getUserSubjects d userId q)
       = Some (Fin (of_nat (card (s_id ` subjectsAttendedBy d userId))))"
    unfolding t by (simp_all add: paged_total countDistinct_card subjectsCountJoin_student)
next
  assume a: "intParam (toNumber pid) = Inr n \<and> q ''role'' = Some (QStr ''teacher'') \<and> accepted q"
  then have v: "validRole (q ''role'') = Some ''teacher''" by (simp add: validRole_Some)
  from a show "status (getSubjectUsers d pid q) = 200"
    "totalOf (getSubjectUsers d pid q)
       = Some (Fin (of_nat (card (u_id ` teachersOfSubject d n))))"
    by (simp_all add: getSubjectUsers_int[where q = q, OF _ v] paged_total countDistinct_card
          subjectUsersJoin_teacher)
  from a show "status (getClassUsers d pid q) = 200"
    "totalOf (getClassUsers d pid q)
       = Some (Fin (of_nat (card (u_id ` teachersOfClass d n))))"
    by (simp_all add: getClassUsers_int[where q = q, OF _ v] paged_total countDistinct_card
          classUsersJoin_teacher)
next
  assume a: "intParam (toNumber pid) = Inr n \<and> q ''role'' = Some (QStr ''student'') \<and> accepted q"
  then have v: "validRole (q ''role'') = Some ''student''" by (simp add: validRole_Some)
  from a show "status (getSubjectUsers d pid q) = 200"
    "totalOf (getSubjectUsers d pid q)
       = Some (Fin (of_nat (card (u_id ` studentsOfSubject d n))))"
    by (simp_all add: getSubjectUsers_int[where q = q, OF _ v] paged_total countDistinct_card
          subjectUsersJoin_student)
  from a show "status (getClassUsers d pid q) = 200"
    "totalOf (getClassUsers d pid q)
       = Some (Fin (of_nat (card (u_id ` studentsOfClass d n))))"
    by (simp_all add: getClassUsers_int[where q = q, OF _ v] paged_total countDistinct_card
          classUsersJoin_student)
next
  assume a: "userRecord d userId = Some u \<and> (u_role u = ''teacher'' \<or> u_role u = ''student'')
        \<and> \<not> accepted q"
  then show "getUserDepartments d userId q
            = \<lparr>status = 500, body = Error ''Failed to fetch user departments''\<rparr>"
    using getUserDepartments_role[of d userId u q]
    by (simp add: paged_rejected errorResponse_def)
  from a show "getUserSubjects d userId q
            = \<lparr>status = 500, body = Error ''Failed to fetch user subjects''\<rparr>"
    using getUserSubjects_role[of d userId u q]
    by (simp add: paged_rejected errorResponse_def)
qed

theorem total_counts_distinct_rows_witness:
  "userRecord school ''t1'' = Some (mkUser ''t1'' ''teacher'' 1)
   \<and> u_role (mkUser ''t1'' ''teacher'' 1) = ''teacher''
   \<and> userRecord school ''s1'' = Some (mkUser ''s1'' ''student'' 2)
   \<and> u_role (mkUser ''s1'' ''student'' 2) = ''student''
   \<and> accepted noQuery
   \<and> status (getUserDepartments school ''t1'' noQuery) = 200
   \<and> totalOf (getUserDepartments school ''t1'' noQuery) = Some (Fin 1)
   \<and> length (departmentsJoin school ''teacher'' ''t1'') = 6
   \<and> card (d_id ` departmentsTaughtBy school ''t1'') = 1
   \<and> totalOf (getUserSubjects school ''t1'' noQuery) = Some (Fin 3)
   \<and> length (subjectsCountJoin school ''teacher'' ''t1'') = 6
   \<and> card (s_id ` subjectsTaughtBy school ''t1'') = 3
   \<and> totalOf (getUserDepartments school ''s1'' noQuery) = Some (Fin 1)
   \<and> card (d_id ` departmentsAttendedBy school ''s1'') = 1
   \<and> totalOf (getUserSubjects school ''s1'' noQuery) = Some (Fin 1)
   \<and> length (subjectsCountJoin school ''student'' ''s1'') = 2
   \<and> card (s_id ` subjectsAttendedBy school ''s1'') = 1
   \<and> intParam (toNumber ''1'') = Inr 1
   \<and> accepted (queryOf [(''role'', ''teacher'')])
   \<and> totalOf (getSubjectUsers school ''1'' (queryOf [(''role'', ''teacher'')])) = Some (Fin 1)
   \<and> length (subjectUsersJoin school ''teacher'' 1) = 2
   \<and> card (u_id ` teachersOfSubject school 1) = 1
   \<and> totalOf (getClassUsers school ''1'' (queryOf [(''role'', ''teacher'')])) = Some (Fin 1)
   \<and> card (u_id ` teachersOfClass school 1) = 1
   \<and> accepted (queryOf [(''role'', ''student'')])
   \<and> totalOf (getSubjectUsers school ''1'' (queryOf [(''role'', ''student'')])) = Some (Fin 1)
   \<and> length (subjectUsersJoin school ''student'' 1) = 2
   \<and> card (u_id ` studentsOfSubject school 1) = 1
   \<and> totalOf (getClassUsers school ''1'' (queryOf [(''role'', ''student'')])) = Some (Fin 1)
   \<and> card (u_id ` studentsOfClass school 1) = 1
   \<and> \<not> accepted (queryOf [(''limit'', ''2.5'')])
   \<and> getUserDepartments school ''t1'' (queryOf [(''limit'', ''2.5'')])
       = \<lparr>status = 500, body = Error ''Failed to fetch user departments''\<rparr>
   \<and> getUserSubjects school ''t1'' (queryOf [(''limit'', ''2.5'')])
       = \<lparr>status = 500, body = Error ''Failed to fetch user subjects''\<rparr>"
proof -
  let ?t = "queryOf [(''role'', ''teacher'')]"
  let ?s = "queryOf [(''role'', ''student'')]"
  let ?r = "queryOf [(''limit'', ''2.5'')]"
  have u: "userRecord school ''t1'' = Some (mkUser ''t1'' ''teacher'' 1)"
    "userRecord school ''s1'' = Some (mkUser ''s1'' ''student'' 2)"
    by code_simp+
  have r: "u_role (mkUser ''t1'' ''teacher'' 1) = ''teacher''"
    "u_role (mkUser ''s1'' ''student'' 2) = ''student''"
    by (simp_all add: mkUser_def)
  have a: "accepted noQuery" "accepted ?t" "accepted ?s" "\<not> accepted ?r" by code_simp+
  have i: "intParam (toNumber ''1'') = Inr 1" by code_simp
  have q: "?t ''role'' = Some (QStr ''teacher'')" "?s ''role'' = Some (QStr ''student'')"
    by (simp_all add: queryOf_def)
  have e: "totalOf (getUserDepartments school ''t1'' noQuery) = Some (Fin 1)"
    "totalOf (getUserSubjects school ''t1'' noQuery) = Some (Fin 3)"
    "totalOf (getUserDepartments school ''s1'' noQuery) = Some (Fin 1)"
    "totalOf (getUserSubjects school ''s1'' noQuery) = Some (Fin 1)"
    "totalOf (getSubjectUsers school ''1'' ?t) = Some (Fin 1)"
    "totalOf (getClassUsers school ''1'' ?t) = Some (Fin 1)"
    "totalOf (getSubjectUsers school ''1'' ?s) = Some (Fin 1)"
    "totalOf (getClassUsers school ''1'' ?s) = Some (Fin 1)"
    by code_simp+
  have l: "length (departmentsJoin school ''teacher'' ''t1'') = 6"
    "length (subjectsCountJoin school ''teacher'' ''t1'') = 6"
    "length (subjectsCountJoin school ''student'' ''s1'') = 2"
    "length (subjectUsersJoin school ''teacher'' 1) = 2"
    "length (subjectUsersJoin school ''student'' 1) = 2"
    by code_simp+
  note T = total_counts_distinct_rows[where d = school and userId = "''t1''"
             and u = "mkUser ''t1'' ''teacher'' 1" and q = noQuery and pid = "''1''" and n = 1]
  from T u r a have T1: "status (getUserDepartments school ''t1'' noQuery) = 200"
    "totalOf (getUserDepartments school ''t1'' noQuery)
       = Some (Fin (of_nat (card (d_id ` departmentsTaughtBy school ''t1''))))"
    "totalOf (getUserSubjects school ''t1'' noQuery)
       = Some (Fin (of_nat (card (s_id ` subjectsTaughtBy school ''t1''))))"
    by blast+
  note S = total_counts_distinct_rows[where d = school and userId = "''s1''"
             and u = "mkUser ''s1'' ''student'' 2" and q = noQuery and pid = "''1''" and n = 1]
  from S u r a have S1: "totalOf (getUserDepartments school ''s1'' noQuery)
       = Some (Fin (of_nat (card (d_id ` departmentsAttendedBy school ''s1''))))"
    "totalOf (getUserSubjects school ''s1'' noQuery)
       = Some (Fin (of_nat (card (s_id ` subjectsAttendedBy school ''s1''))))"
    by blast+
  note P = total_counts_distinct_rows[where d = school and userId = "''t1''"
             and u = "mkUser ''t1'' ''teacher'' 1" and q = ?t and pid = "''1''" and n = 1]
  from P i q a have P1: "totalOf (getSubjectUsers school ''1'' ?t)
       = Some (Fin (of_nat (card (u_id ` teachersOfSubject school 1))))"
    "totalOf (getClassUsers school ''1'' ?t)
       = Some (Fin (of_nat (card (u_id ` teachersOfClass school 1))))"
    by blast+
  note Q = total_counts_distinct_rows[where d = school and userId = "''t1''"
             and u = "mkUser ''t1'' ''teacher'' 1" and q = ?s and pid = "''1''" and n = 1]
  from Q i q a have Q1: "totalOf (getSubjectUsers school ''1'' ?s)
       = Some (Fin (of_nat (card (u_id ` studentsOfSubject school 1))))"
    "totalOf (getClassUsers school ''1'' ?s)
       = Some (Fin (of_nat (card (u_id ` studentsOfClass school 1))))"
    by blast+
  note R = total_counts_distinct_rows[where d = school and userId = "''t1''"
             and u = "mkUser ''t1'' ''teacher'' 1" and q = ?r and pid = "''1''" and n = 1]
  from R u r a have R1: "getUserDepartments school ''t1'' ?r
       = \<lparr>status = 500, body = Error ''Failed to fetch user departments''\<rparr>"
    "getUserSubjects school ''t1'' ?r
       = \<lparr>status = 500, body = Error ''Failed to fetch user subjects''\<rparr>"
    by blast+
  have c: "card (d_id ` departmentsTaughtBy school ''t1'') = 1"
    "card (s_id ` subjectsTaughtBy school ''t1'') = 3"
    "card (d_id ` departmentsAttendedBy school ''s1'') = 1"
    "card (s_id ` subjectsAttendedBy school ''s1'') = 1"
    "card (u_id ` teachersOfSubject school 1) = 1"
    "card (u_id ` teachersOfClass school 1) = 1"
    "card (u_id ` studentsOfSubject school 1) = 1"
    "card (u_id ` studentsOfClass school 1) = 1"
    using T1(2,3) S1 P1 Q1 unfolding e by simp_all
  from u r a i e l c T1(1) R1 show ?thesis by (intro conjI)
qed

subsection \<open>The data query of a user's subjects\<close>

lemma set_orderByDesc: "set (orderByDesc k xs) = set xs"
  by (simp add: orderByDesc_def)

lemma distinct_orderByDesc: "distinct (orderByDesc k xs) = distinct xs"
  by (simp add: orderByDesc_def)

lemma leftJoin_total: "l \<in> set rows \<Longrightarrow> \<exists>r. (l, r) \<in> set (leftJoin rows tbl on)"
  by (cases "\<exists>r\<in>set tbl. on l r") (auto simp: set_leftJoin)

lemma leftJoin_key_unique:
  assumes "distinct (map k tbl)"
    and "(l, r1) \<in> set (leftJoin rows tbl (\<lambda>l r. f l = k r))"
    and "(l, r2) \<in> set (leftJoin rows tbl (\<lambda>l r. f l = k r))"
  shows "r1 = r2"
proof -
  from assms(1) have inj: "inj_on k (set tbl)" by (simp add: distinct_map)
  show ?thesis
  proof (cases r1)
    case None
    with assms(2,3) show ?thesis by (cases r2) (auto simp: leftJoin_Some leftJoin_None)
  next
    case (Some x)
    with assms(2) have x: "x \<in> set tbl" "f l = k x" by (auto simp: leftJoin_Some)
    show ?thesis
    proof (cases r2)
      case None
      with assms(3) x show ?thesis by (auto simp: leftJoin_None)
    next
      case (Some y)
      with assms(3) have "y \<in> set tbl" "f l = k y" by (auto simp: leftJoin_Some)
      with x inj have "x = y" by (auto dest: inj_onD)
      with \<open>r1 = Some x\<close> \<open>r2 = Some y\<close> show ?thesis by simp
    qed
  qed
qed

lemma subjectsDataJoin_teacher:
  "set (subjectsDataJoin d ''teacher'' uid) =
     {(s, dp). (s, dp) \<in> set (leftJoin (subjects d) (departments d)
                                 (\<lambda>s dp. s_departmentId s = d_id dp))
               \<and> s \<in> subjectsTaughtBy d uid}"
proof (intro set_eqI iffI)
  fix x assume "x \<in> set (subjectsDataJoin d ''teacher'' uid)"
  then show "x \<in> {(s, dp). (s, dp) \<in> set (leftJoin (subjects d) (departments d)
                                 (\<lambda>s dp. s_departmentId s = d_id dp))
               \<and> s \<in> subjectsTaughtBy d uid}"
    by (fastforce simp: subjectsDataJoin_def subjectsTaughtBy_def join_simps dest: leftJoin_fst)
next
  fix x assume a: "x \<in> {(s, dp). (s, dp) \<in> set (leftJoin (subjects d) (departments d)
                                 (\<lambda>s dp. s_departmentId s = d_id dp))
               \<and> s \<in> subjectsTaughtBy d uid}"
  obtain s dp where x: "x = (s, dp)" by (cases x)
  with a obtain c where "(s, dp) \<in> set (leftJoin (subjects d) (departments d)
                                 (\<lambda>s dp. s_departmentId s = d_id dp))"
    "c \<in> set (classes d)" "c_subjectId c = s_id s" "c_teacherId c = uid"
    by (auto simp: subjectsTaughtBy_def)
  then show "x \<in> set (subjectsDataJoin d ''teacher'' uid)"
    unfolding x
    by (auto simp: subjectsDataJoin_def join_simps intro!: image_eqI[where x = "((s, dp), Some c)"])
qed

lemma subjectsDataJoin_student:
  "set (subjectsDataJoin d ''student'' uid) =
     {(s, dp). (s, dp) \<in> set (leftJoin (subjects d) (departments d)
                                 (\<lambda>s dp. s_departmentId s = d_id dp))
               \<and> s \<in> subjectsAttendedBy d uid}"
proof (intro set_eqI iffI)
  fix x assume "x \<in> set (subjectsDataJoin d ''student'' uid)"
  then show "x \<in> {(s, dp). (s, dp) \<in> set (leftJoin (subjects d) (departments d)
                                 (\<lambda>s dp. s_departmentId s = d_id dp))
               \<and> s \<in> subjectsAttendedBy d uid}"
    by (fastforce simp: subjectsDataJoin_def subjectsAttendedBy_def join_simps dest: leftJoin_fst)
next
  fix x assume a: "x \<in> {(s, dp). (s, dp) \<in> set (leftJoin (subjects d) (departments d)
                                 (\<lambda>s dp. s_departmentId s = d_id dp))
               \<and> s \<in> subjectsAttendedBy d uid}"
  obtain s dp where x: "x = (s, dp)" by (cases x)
  with a obtain c e where "(s, dp) \<in> set (leftJoin (subjects d) (departments d)
                                 (\<lambda>s dp. s_departmentId s = d_id dp))"
    "c \<in> set (classes d)" "e \<in> set (enrollments d)"
    "c_subjectId c = s_id s" "e_classId e = c_id c" "e_studentId e = uid"
    by (auto simp: subjectsAttendedBy_def)
  then show "x \<in> set (subjectsDataJoin d ''student'' uid)"
    unfolding x
    by (auto simp: subjectsDataJoin_def join_simps
          intro!: image_eqI[where x = "(((s, dp), Some c), Some e)"])
qed

lemma pageSubjects_listResponse:
  "pageSubjects (listResponse (map (\<lambda>(s, dp). SubjectItem s dp) rows) q t) = map fst rows"
  by (induction rows) (auto simp: pageSubjects_def pageItems_def listResponse_def)

lemma subjectsList_set:
  assumes "role = ''teacher'' \<or> role = ''student''"
  shows "set (subjectsList d role uid) =
     {(s, dp). (s, dp) \<in> set (leftJoin (subjects d) (departments d)
                                 (\<lambda>s dp. s_departmentId s = d_id dp))
               \<and> s \<in> (if role = ''teacher'' then subjectsTaughtBy d uid
                        else subjectsAttendedBy d uid)}"
  using assms
  by (auto simp: subjectsList_def set_orderByDesc groupBy_def subjectsDataJoin_teacher
        subjectsDataJoin_student)

lemma subjectsList_subjects:
  assumes "role = ''teacher'' \<or> role = ''student''"
  shows "set (map fst (subjectsList d role uid)) =
     (if role = ''teacher'' then subjectsTaughtBy d uid else subjectsAttendedBy d uid)"
    (is "?l = ?q")
proof (intro set_eqI iffI)
  fix s assume "s \<in> ?l"
  then show "s \<in> ?q" by (auto simp: subjectsList_set[OF assms])
next
  fix s assume q: "s \<in> ?q"
  then have "s \<in> set (subjects d)"
    by (auto simp: subjectsTaughtBy_def subjectsAttendedBy_def split: if_splits)
  then obtain dp where "(s, dp) \<in> set (leftJoin (subjects d) (departments d)
                                 (\<lambda>s dp. s_departmentId s = d_id dp))"
    using leftJoin_total [of s "subjects d" "departments d" "\<lambda>s dp. s_departmentId s = d_id dp"]
    by blast
  with q have "(s, dp) \<in> set (subjectsList d role uid)"
    by (simp add: subjectsList_set[OF assms])
  then show "s \<in> ?l" by force
qed

lemma subjectsList_distinct:
  assumes "role = ''teacher'' \<or> role = ''student''"
    and "distinct (map s_id (subjects d))" and "distinct (map d_id (departments d))"
  shows "distinct (map s_id (map fst (subjectsList d role uid)))"
proof -
  have d: "distinct (subjectsList d role uid)"
    by (simp add: subjectsList_def distinct_orderByDesc groupBy_def)
  from assms(2) have injs: "inj_on s_id (set (subjects d))" by (simp add: distinct_map)
  have "inj_on (\<lambda>x. s_id (fst x)) (set (subjectsList d role uid))"
  proof (rule inj_onI)
    fix x y
    assume x: "x \<in> set (subjectsList d role uid)" and y: "y \<in> set (subjectsList d role uid)"
      and e: "s_id (fst x) = s_id (fst y)"
    obtain s1 p1 where x': "x = (s1, p1)" by (cases x)
    obtain s2 p2 where y': "y = (s2, p2)" by (cases y)
    from x x' have j1: "(s1, p1) \<in> set (leftJoin (subjects d) (departments d)
                                 (\<lambda>s dp. s_departmentId s = d_id dp))"
      by (simp add: subjectsList_set[OF assms(1)])
    from y y' have j2: "(s2, p2) \<in> set (leftJoin (subjects d) (departments d)
                                 (\<lambda>s dp. s_departmentId s = d_id dp))"
      by (simp add: subjectsList_set[OF assms(1)])
    from j1 j2 have "s1 \<in> set (subjects d)" "s2 \<in> set (subjects d)"
      by (auto dest: leftJoin_fst)
    with e x' y' injs have s: "s1 = s2" by (auto dest: inj_onD)
    with j1 j2 assms(3) have "p1 = p2" by (auto dest: leftJoin_key_unique)
    with s x' y' show "x = y" by simp
  qed
  with d have "distinct (map (\<lambda>x. s_id (fst x)) (subjectsList d role uid))"
    by (simp add: distinct_map)
  then show ?thesis by (simp add: comp_def)
qed

lemma limitOffset_Inr_window:
  assumes "limitOffset l k rows = Inr xs"
  shows "\<exists>n m. xs = take n (drop m rows)"
proof -
  from assms have xs: "xs = (case limitClause l of
                     Rows n \<Rightarrow> take n (case offsetClause k of Rows m \<Rightarrow> drop m rows | _ \<Rightarrow> rows)
                   | _ \<Rightarrow> (case offsetClause k of Rows m \<Rightarrow> drop m rows | _ \<Rightarrow> rows))"
    by (auto simp: limitOffset_def Let_def split: if_splits)
  have o: "\<exists>m. (case offsetClause k of Rows m \<Rightarrow> drop m rows | _ \<Rightarrow> rows) = drop m rows"
    by (cases "offsetClause k") (auto intro: exI[of _ 0])
  then obtain m where m: "(case offsetClause k of Rows m \<Rightarrow> drop m rows | _ \<Rightarrow> rows) = drop m rows"
    by blast
  have "\<exists>n. xs = take n (drop m rows)"
    unfolding xs m
    by (cases "limitClause l") (auto intro: exI[of _ "length (drop m rows)"])
  then show ?thesis by blast
qed

text \<open>
  Claim C2, as the code has it.  For a user whose stored role is teacher (student), the
  data query of \<^verbatim>\<open>GET /users/:id/subjects\<close> lists exactly the subjects that have a class
  taught by the user (a class the user is enrolled in), each once, however many classes of
  the subject the user teaches or attends.  When the engine takes the window of page and
  limit, the answer is 200 and holds a run of consecutive rows of that list: every subject of
  the response qualifies and none is repeated.  For an integer page \<open>p\<close> and an integer
  limit \<open>l\<close> with \<open>p * l < 2^53\<close> the run is the \<open>l\<close> rows after the first \<open>(p - 1) * l\<close>, so
  the first page holds all the subjects when the list is no longer than the limit.  When
  the engine does not take the window the answer is 500.  The primary keys of \<^verbatim>\<open>subjects\<close>
  and \<^verbatim>\<open>departments\<close> are assumed.
\<close>

theorem user_subjects_page:
  assumes "userRecord d userId = Some u"
    and "u_role u = ''teacher'' \<or> u_role u = ''student''"
    and "distinct (map s_id (subjects d))" and "distinct (map d_id (departments d))"
  shows "set (map fst (subjectsList d (u_role u) userId))
           = (if u_role u = ''teacher'' then subjectsTaughtBy d userId
              else subjectsAttendedBy d userId)
     \<and> distinct (map s_id (map fst (subjectsList d (u_role u) userId)))
     \<and> (accepted q
          \<longrightarrow> status (getUserSubjects d userId q) = 200
            \<and> (\<exists>n m. pageSubjects (getUserSubjects d userId q)
                        = take n (drop m (map fst (subjectsList d (u_role u) userId))))
            \<and> distinct (map s_id (pageSubjects (getUserSubjects d userId q)))
            \<and> set (pageSubjects (getUserSubjects d userId q))
                 \<subseteq> (if u_role u = ''teacher'' then subjectsTaughtBy d userId
                    else subjectsAttendedBy d userId))
     \<and> (\<forall>p l. currentPage q = Fin (of_int p) \<and> limitPerPage q = Fin (of_int l)
                 \<and> p * l < 2 ^ 53
          \<longrightarrow> status (getUserSubjects d userId q) = 200
            \<and> pageSubjects (getUserSubjects d userId q)
                 = take (nat l) (drop (nat ((p - 1) * l))
                     (map fst (subjectsList d (u_role u) userId)))
            \<and> (p = 1 \<and> length (subjectsList d (u_role u) userId) \<le> nat l
                 \<longrightarrow> set (pageSubjects (getUserSubjects d userId q))
                        = (if u_role u = ''teacher'' then subjectsTaughtBy d userId
                           else subjectsAttendedBy d userId)))
     \<and> (\<not> accepted q
          \<longrightarrow> getUserSubjects d userId q
                = \<lparr>status = 500, body = Error ''Failed to fetch user subjects''\<rparr>)"
proof -
  let ?L = "subjectsList d (u_role u) userId"
  let ?S = "if u_role u = ''teacher'' then subjectsTaughtBy d userId
            else subjectsAttendedBy d userId"
  let ?t = "countDistinct s_id (subjectsCountJoin d (u_role u) userId)"
  note h = getUserSubjects_role[OF assms(1,2), of q]
  have s: "set (map fst ?L) = ?S"
    using assms(2) by (rule subjectsList_subjects)
  have dl: "distinct (map s_id (map fst ?L))"
    using assms(2,3,4) by (rule subjectsList_distinct)
  have page: "status (getUserSubjects d userId q) = 200
      \<and> pageSubjects (getUserSubjects d userId q) = take n (drop m (map fst ?L))"
    if "limitOffset (limitPerPage q) (offset q) ?L = Inr (take n (drop m ?L))" for n m
    unfolding h that
    by (simp add: try_simps status_listResponse pageSubjects_listResponse take_map drop_map)
  have window: "distinct (map s_id (take n (drop m (map fst ?L))))
      \<and> set (take n (drop m (map fst ?L))) \<subseteq> ?S" for n m
  proof -
    have "distinct (map s_id (take n (drop m (map fst ?L))))"
      using dl by (simp add: take_map[symmetric] drop_map[symmetric] del: map_map)
    moreover have "set (take n (drop m (map fst ?L))) \<subseteq> set (map fst ?L)"
      by (meson set_take_subset set_drop_subset subset_trans)
    ultimately show ?thesis unfolding s by blast
  qed
  have acc: "status (getUserSubjects d userId q) = 200
            \<and> (\<exists>n m. pageSubjects (getUserSubjects d userId q) = take n (drop m (map fst ?L)))
            \<and> distinct (map s_id (pageSubjects (getUserSubjects d userId q)))
            \<and> set (pageSubjects (getUserSubjects d userId q)) \<subseteq> ?S"
    if "accepted q"
  proof -
    from limitOffset_accepted[OF that] obtain xs
      where x: "limitOffset (limitPerPage q) (offset q) ?L = Inr xs" by blast
    from limitOffset_Inr_window[OF x] obtain n m where "xs = take n (drop m ?L)" by blast
    with x page[of n m] window[of n m] show ?thesis by auto
  qed
  have int: "status (getUserSubjects d userId q) = 200
            \<and> pageSubjects (getUserSubjects d userId q)
                 = take (nat l) (drop (nat ((p - 1) * l)) (map fst ?L))
            \<and> (p = 1 \<and> length ?L \<le> nat l
                 \<longrightarrow> set (pageSubjects (getUserSubjects d userId q)) = ?S)"
    if "currentPage q = Fin (of_int p) \<and> limitPerPage q = Fin (of_int l) \<and> p * l < 2 ^ 53"
    for p l
  proof -
    from that have "limitOffset (limitPerPage q) (offset q) ?L
                      = Inr (take (nat l) (drop (nat ((p - 1) * l)) ?L))"
      by (intro limitOffset_integers(1)) simp_all
    from page[OF this] have p: "status (getUserSubjects d userId q) = 200"
      "pageSubjects (getUserSubjects d userId q)
         = take (nat l) (drop (nat ((p - 1) * l)) (map fst ?L))"
      by simp_all
    have "set (pageSubjects (getUserSubjects d userId q)) = ?S"
      if "p = 1 \<and> length ?L \<le> nat l"
      unfolding p(2) s[symmetric] using that by simp
    with p show ?thesis by blast
  qed
  have rej: "getUserSubjects d userId q
                = \<lparr>status = 500, body = Error ''Failed to fetch user subjects''\<rparr>"
    if "\<not> accepted q"
    unfolding h using that by (simp add: paged_rejected errorResponse_def)
  from s dl acc int rej show ?thesis by (intro conjI impI allI) blast+
qed

theorem user_subjects_page_witness:
  "userRecord school ''s1'' = Some (mkUser ''s1'' ''student'' 2)
   \<and> u_role (mkUser ''s1'' ''student'' 2) = ''student''
   \<and> distinct (map s_id (subjects school)) \<and> distinct (map d_id (departments school))
   \<and> accepted noQuery
   \<and> currentPage noQuery = Fin (of_int 1) \<and> limitPerPage noQuery = Fin (of_int 10)
   \<and> (1::int) * 10 < 2 ^ 53
   \<and> length (subjectsList school ''student'' ''s1'') \<le> nat 10
   \<and> status (getUserSubjects school ''s1'' noQuery) = 200
   \<and> length (filter (\<lambda>e. e_studentId e = ''s1'') (enrollments school)) = 2
   \<and> pageSubjects (getUserSubjects school ''s1'' noQuery) = [mkSubject 1 1 ''ALG'' 1]
   \<and> subjectsAttendedBy school ''s1'' = {mkSubject 1 1 ''ALG'' 1}
   \<and> \<not> accepted (queryOf [(''limit'', ''2.5'')])
   \<and> getUserSubjects school ''s1'' (queryOf [(''limit'', ''2.5'')])
       = \<lparr>status = 500, body = Error ''Failed to fetch user subjects''\<rparr>"
proof -
  let ?r = "queryOf [(''limit'', ''2.5'')]"
  have 1: "userRecord school ''s1'' = Some (mkUser ''s1'' ''student'' 2)" by code_simp
  have 2: "u_role (mkUser ''s1'' ''student'' 2) = ''student''" by (simp add: mkUser_def)
  have 3: "distinct (map s_id (subjects school))" by code_simp
  have 4: "distinct (map d_id (departments school))" by code_simp
  have 5: "accepted noQuery" "\<not> accepted ?r" by code_simp+
  have "currentPage noQuery = Fin 1" "limitPerPage noQuery = Fin 10" by code_simp+
  then have 6: "currentPage noQuery = Fin (of_int 1) \<and> limitPerPage noQuery = Fin (of_int 10)
                  \<and> (1::int) * 10 < 2 ^ 53"
    by simp
  have 7: "length (subjectsList school ''student'' ''s1'') \<le> nat 10" by code_simp
  have 8: "length (filter (\<lambda>e. e_studentId e = ''s1'') (enrollments school)) = 2" by code_simp
  have 9: "pageSubjects (getUserSubjects school ''s1'' noQuery) = [mkSubject 1 1 ''ALG'' 1]"
    by code_simp
  have r: "u_role (mkUser ''s1'' ''student'' 2) = ''teacher'' \<or> u_role (mkUser ''s1'' ''student'' 2) = ''student''"
    using 2 by simp
  note T = user_subjects_page[OF 1 r 3 4, of noQuery, unfolded 2]
  from T 6 have "status (getUserSubjects school ''s1'' noQuery) = 200
      \<and> (1 = (1::int) \<and> length (subjectsList school ''student'' ''s1'') \<le> nat 10
           \<longrightarrow> set (pageSubjects (getUserSubjects school ''s1'' noQuery))
                  = (if ''student'' = ''teacher'' then subjectsTaughtBy school ''s1''
                     else subjectsAttendedBy school ''s1''))"
    by blast
  with 7 have 10: "status (getUserSubjects school ''s1'' noQuery) = 200"
    and "set (pageSubjects (getUserSubjects school ''s1'' noQuery))
           = subjectsAttendedBy school ''s1''"
    by simp_all
  then have 11: "subjectsAttendedBy school ''s1'' = {mkSubject 1 1 ''ALG'' 1}"
    unfolding 9 by simp
  note R = user_subjects_page[OF 1 r 3 4, of ?r]
  from R 5 have 12: "getUserSubjects school ''s1'' ?r
       = \<lparr>status = 500, body = Error ''Failed to fetch user subjects''\<rparr>"
    by blast
  from 1 2 3 4 5 6 7 8 9 10 11 12 show ?thesis by (intro conjI) simp_all
qed

text \<open>
  Claim C2, as the spec has it, fails when the page is shorter than the list: the teacher of
  the example store teaches classes of three subjects, and with \<^verbatim>\<open>?limit=1\<close> the response
  holds one of them.
\<close>

theorem one_page_is_not_every_subject:
  "userRecord school ''t1'' = Some (mkUser ''t1'' ''teacher'' 1)
   \<and> status (getUserSubjects school ''t1'' (queryOf [(''limit'', ''1'')])) = 200
   \<and> pageSubjects (getUserSubjects school ''t1'' (queryOf [(''limit'', ''1'')]))
       = [mkSubject 3 1 ''CAL'' 3]
   \<and> mkSubject 1 1 ''ALG'' 1 \<in> subjectsTaughtBy school ''t1''
   \<and> mkSubject 1 1 ''ALG'' 1 \<notin> set [mkSubject 3 1 ''CAL'' 3]"
proof -
  have 1: "userRecord school ''t1'' = Some (mkUser ''t1'' ''teacher'' 1)" by code_simp
  have 2: "pageSubjects (getUserSubjects school ''t1'' (queryOf [(''limit'', ''1'')]))
       = [mkSubject 3 1 ''CAL'' 3]"
    by code_simp
  have 3: "mkSubject 1 1 ''ALG'' 1 \<in> subjectsTaughtBy school ''t1''"
    by (simp add: subjectsTaughtBy_def school_def mkSubject_def mkClass_def)
  have 4: "mkSubject 1 1 ''ALG'' 1 \<notin> set [mkSubject 3 1 ''CAL'' 3]"
    by (simp add: mkSubject_def)
  have 5: "status (getUserSubjects school ''t1'' (queryOf [(''limit'', ''1'')])) = 200"
    by code_simp
  from 1 2 3 4 5 show ?thesis by simp
qed

subsection \<open>Count and data\<close>

text \<open>
  Under the primary keys, the count of each nested listing is the number of rows of its data
  query, taken over all pages.  The data query of a user's subjects joins the department of
  each subject in addition, which adds no row.
\<close>

lemma length_grouped: "length (orderByDesc k (groupBy (\<lambda>x. x) rows)) = card (set rows)"
  by (simp add: orderByDesc_def groupBy_def length_remdups_card_conv)

lemma count_agrees_with_data:
  assumes "role = ''teacher'' \<or> role = ''student''"
  shows "distinct (map d_id (departments d)) \<Longrightarrow>
           countDistinct d_id (departmentsJoin d role uid)
             = Fin (of_nat (length (departmentsList d role uid)))"
    and "distinct (map s_id (subjects d)) \<Longrightarrow> distinct (map d_id (departments d)) \<Longrightarrow>
           countDistinct s_id (subjectsCountJoin d role uid)
             = Fin (of_nat (length (subjectsList d role uid)))"
    and "distinct (map u_id (user d)) \<Longrightarrow>
           countDistinct u_id (subjectUsersJoin d role n)
             = Fin (of_nat (length (orderByDesc u_createdAt
                                      (groupBy (\<lambda>u. u) (subjectUsersJoin d role n)))))"
    and "distinct (map u_id (user d)) \<Longrightarrow>
           countDistinct u_id (classUsersJoin d role n)
             = Fin (of_nat (length (orderByDesc u_createdAt
                                      (groupBy (\<lambda>u. u) (classUsersJoin d role n)))))"
proof -
  have dsub: "set (departmentsJoin d role uid) \<subseteq> set (departments d)"
    using assms
    by (auto simp: departmentsJoin_teacher departmentsJoin_student departmentsTaughtBy_def
          departmentsAttendedBy_def)
  have usub: "set (subjectUsersJoin d role n) \<subseteq> set (user d)"
    using assms
    by (auto simp: subjectUsersJoin_teacher subjectUsersJoin_student teachersOfSubject_def
          studentsOfSubject_def)
  have csub: "set (classUsersJoin d role n) \<subseteq> set (user d)"
    using assms
    by (auto simp: classUsersJoin_teacher classUsersJoin_student teachersOfClass_def
          studentsOfClass_def)
  show "countDistinct d_id (departmentsJoin d role uid)
          = Fin (of_nat (length (departmentsList d role uid)))"
    if "distinct (map d_id (departments d))"
    using that dsub
    by (simp add: countDistinct_card departmentsList_def length_grouped card_image_key)
  show "countDistinct u_id (subjectUsersJoin d role n)
          = Fin (of_nat (length (orderByDesc u_createdAt
                                   (groupBy (\<lambda>u. u) (subjectUsersJoin d role n)))))"
    if "distinct (map u_id (user d))"
    using that usub by (simp add: countDistinct_card length_grouped card_image_key)
  show "countDistinct u_id (classUsersJoin d role n)
          = Fin (of_nat (length (orderByDesc u_createdAt
                                   (groupBy (\<lambda>u. u) (classUsersJoin d role n)))))"
    if "distinct (map u_id (user d))"
    using that csub by (simp add: countDistinct_card length_grouped card_image_key)
  show "countDistinct s_id (subjectsCountJoin d role uid)
          = Fin (of_nat (length (subjectsList d role uid)))"
    if pk: "distinct (map s_id (subjects d))" "distinct (map d_id (departments d))"
  proof -
    let ?q = "if role = ''teacher'' then subjectsTaughtBy d uid else subjectsAttendedBy d uid"
    have c: "set (subjectsCountJoin d role uid) = ?q"
      using assms by (auto simp: subjectsCountJoin_teacher subjectsCountJoin_student)
    have l: "set (map fst (subjectsList d role uid)) = ?q"
      using assms by (rule subjectsList_subjects)
    have "distinct (map s_id (map fst (subjectsList d role uid)))"
      using assms pk by (rule subjectsList_distinct)
    then have "length (subjectsList d role uid)
                 = card (set (map s_id (map fst (subjectsList d role uid))))"
      by (simp add: distinct_card del: set_map map_map)
    also have "\<dots> = card (s_id ` ?q)"
      using l by (simp del: map_map)
    finally show ?thesis
      by (simp add: countDistinct_card c)
  qed
qed

subsection \<open>The invite code\<close>

text \<open>
  \<^verbatim>\<open>substring(2, 9)\<close> keeps seven characters of a string of nine or more and the characters
  from the third on of a shorter one, all of them digits of \<^verbatim>\<open>0-9a-z\<close>.
\<close>

lemma substring_2_9_length: "length (substring 2 9 s) \<le> 7"
  by (simp add: Let_def)

lemma substring_2_9_seven: "9 \<le> length s \<Longrightarrow> length (substring 2 9 s) = 7"
  by (simp add: Let_def)

lemma substring_2_9_short: "length s < 9 \<Longrightarrow> length (substring 2 9 s) = length s - 2"
  by (auto simp: Let_def min_def max_def)

lemma substring_2_9_base36:
  "randomString s \<Longrightarrow> list_all isBase36 (substring 2 9 s)"
proof -
  assume "randomString s"
  then consider "s = ''0''" | "list_all isBase36 (drop 2 s)"
    by (auto simp: randomString_def)
  then show ?thesis
  proof cases
    case 1
    then show ?thesis by (simp add: Let_def)
  next
    case 2
    then have "list_all isBase36 (take 7 (drop 2 s))"
      by (auto simp: list_all_iff dest: in_set_takeD)
    moreover have "substring 2 9 s = take 7 (drop 2 s)"
      by (auto simp: Let_def min_def max_def)
    ultimately show ?thesis by simp
  qed
qed

text \<open>
  So the invite code handed to the store has at most seven characters, and seven only when
  the random string has at least seven digits after \<^verbatim>\<open>0.\<close>; the schedule list is empty.
\<close>

lemma invite_code_shape:
  assumes "randomString rnd"
  shows "length (cv_inviteCode (classValues b rnd)) \<le> 7"
    and "list_all isBase36 (cv_inviteCode (classValues b rnd))"
    and "length (cv_inviteCode (classValues b rnd)) = 7 \<longleftrightarrow> 9 \<le> length rnd"
    and "cv_schedules (classValues b rnd) = []"
proof -
  have c: "cv_inviteCode (classValues b rnd) = substring 2 9 rnd"
    by (simp add: classValues_def)
  show "length (cv_inviteCode (classValues b rnd)) \<le> 7"
    unfolding c by (rule substring_2_9_length)
  show "list_all isBase36 (cv_inviteCode (classValues b rnd))"
    unfolding c using assms by (rule substring_2_9_base36)
  show "length (cv_inviteCode (classValues b rnd)) = 7 \<longleftrightarrow> 9 \<le> length rnd"
  proof (cases "9 \<le> length rnd")
    case True
    then show ?thesis unfolding c by (simp add: substring_2_9_seven del: substring.simps)
  next
    case False
    then have "length (substring 2 9 rnd) = length rnd - 2"
      by (intro substring_2_9_short) simp
    with False show ?thesis unfolding c by (simp del: substring.simps)
  qed
  show "cv_schedules (classValues b rnd) = []"
    by (simp add: classValues_def)
qed

text \<open>
  Claim C5 at the random value 0.5, whose string is \<^verbatim>\<open>0.i\<close>: the request with valid fields
  is answered with status 201 and the id of the new class, the stored schedule list is
  empty, and the stored invite code is the single character \<^verbatim>\<open>i\<close>, not seven characters.
\<close>

theorem invite_code_of_one_character:
  "randomString ''0.i''
   \<and> fst (postClasses (insertClass 9) algebraBody ''0.i'' school)
       = \<lparr>status = 201, body = Created 7\<rparr>
   \<and> map c_inviteCode
         (drop 6 (classes (snd (postClasses (insertClass 9) algebraBody ''0.i'' school))))
       = [''i'']
   \<and> concat (map c_schedules
         (drop 6 (classes (snd (postClasses (insertClass 9) algebraBody ''0.i'' school)))))
       = []
   \<and> length ''i'' \<noteq> 7"
proof -
  have 1: "randomString ''0.i''" by code_simp
  have 2: "fst (postClasses (insertClass 9) algebraBody ''0.i'' school)
             = \<lparr>status = 201, body = Created 7\<rparr>"
    by code_simp
  have 3: "map c_inviteCode
              (drop 6 (classes (snd (postClasses (insertClass 9) algebraBody ''0.i'' school))))
       = [''i'']"
    by code_simp
  have 4: "concat (map c_schedules
              (drop 6 (classes (snd (postClasses (insertClass 9) algebraBody ''0.i'' school)))))
       = []"
    by code_simp
  from 1 2 3 4 show ?thesis by simp
qed

end
